theory Spec2Isabelle
  imports Complex_Main "HOL-Library.Sublist"
begin

section \<open>The slide-generation backend (server/index.js)\<close>

text \<open>
  The backend is a pipeline around two remote services: a chat-completion service that
  writes the outline and the text of each slide, and an image service. Everything the
  process reads from outside (the answers of the two services, the clock, the random
  generator, the environment variables, the platform's JSON parser) is collected in a
  record \<open>env\<close>, and every function of the source becomes a function of that record and
  of its own arguments. A \<open>throw\<close> is the left injection of a sum, so each
  \<open>try\<close>/\<open>catch\<close> of the source is a case distinction of the model.

  A JavaScript string is modelled as the list of its code units (\<open>string\<close>); the
  development covers the code units below 256.
\<close>

subsection \<open>JavaScript values\<close>

text \<open>
  A number is held as the numeral JavaScript prints for it: printing a number and
  testing it against zero are all the pipeline does with the numbers of a parsed text.
\<close>

datatype jsval =
    Undefined
  | Null
  | Bool bool
  | Num string
  | Str string
  | Arr "jsval list"
  | Obj "(string \<times> jsval) list"

text \<open>What a \<open>throw\<close> carries. \<open>Rejected\<close> is the rejection of a remote call.\<close>

datatype error = Error string | TypeError | SyntaxError | Rejected

text \<open>The outcome of an awaited call to the outside.\<close>

datatype 'a outcome = Throws | Returns 'a

subsection \<open>Numbers and strings\<close>

definition digit :: "nat \<Rightarrow> char" where
  "digit d = ''0123456789'' ! d"

text \<open>The decimal numeral of a number, as a template literal writes it.\<close>

function show_nat :: "nat \<Rightarrow> string" where
  "show_nat n = (if n < 10 then [digit n] else show_nat (n div 10) @ [digit (n mod 10)])"
  by pat_completeness auto
termination
  by (relation "measure (\<lambda>n. n)") auto

declare show_nat.simps [simp del]

text \<open>
  JavaScript writes an integer below \<open>10\<^sup>2\<^sup>1\<close> in absolute value with all its digits.
  The numbers printed with these two functions are slide indices, time stamps and the
  number of titles asked for.
\<close>

definition show_int :: "int \<Rightarrow> string" where
  "show_int i = (if i < 0 then CHR ''-'' # show_nat (nat (- i)) else show_nat (nat i))"

text \<open>The character class \<open>[a-zA-Z0-9]\<close>.\<close>

definition alnum :: "char \<Rightarrow> bool" where
  "alnum c = (let n = (of_char c :: nat) in
     (97 \<le> n \<and> n \<le> 122) \<or> (65 \<le> n \<and> n \<le> 90) \<or> (48 \<le> n \<and> n \<le> 57))"

text \<open>
  White space as \<open>\s\<close> and \<open>trim\<close> see it: tab, line feed, vertical tab, form feed,
  carriage return, space and the no-break space.
\<close>

definition space :: "char \<Rightarrow> bool" where
  "space c = (let n = (of_char c :: nat) in (9 \<le> n \<and> n \<le> 13) \<or> n = 32 \<or> n = 160)"

definition trim :: "string \<Rightarrow> string" where
  "trim s = rev (dropWhile space (rev (dropWhile space s)))"

subsection \<open>generateImageFilename\<close>

text \<open>
  \<^verbatim>\<open>prompt.replace(/[^a-zA-Z0-9]/g, '_').substring(0, 20)\<close>: every code unit outside
  the class becomes an underscore, then the first 20 code units are kept.
\<close>

definition sanitizedPrompt :: "string \<Rightarrow> string" where
  "sanitizedPrompt prompt = take 20 (map (\<lambda>c. if alnum c then c else CHR ''_'') prompt)"

text \<open>The third argument is the value \<open>Date.now()\<close> returns inside the function.\<close>

definition generateImageFilename :: "string \<Rightarrow> nat \<Rightarrow> nat \<Rightarrow> string" where
  "generateImageFilename prompt index timestamp =
     ''slide_'' @ show_nat index @ ''_'' @ sanitizedPrompt prompt @ ''_'' @ show_nat timestamp @ ''.jpg''"

subsection \<open>Conversion to a string, truthiness, property access\<close>

fun join :: "string \<Rightarrow> string list \<Rightarrow> string" where
  "join sep [] = []"
| "join sep [x] = x"
| "join sep (x # y # ys) = x @ sep @ join sep (y # ys)"

text \<open>
  What a template literal and \<open>+\<close> with a string make of a value. An object is
  converted by the \<open>toString\<close> it inherits, unless it has a property of that name of
  its own: a parsed value is never a function, so the conversion then finds nothing to
  call and throws. An array joins the conversions of its entries, \<open>null\<close> and
  \<open>undefined\<close> counting as empty, and throws where an entry does.
\<close>

fun ToString :: "jsval \<Rightarrow> error + string"
  and elementStrings :: "jsval list \<Rightarrow> error + string list" where
  "ToString Undefined = Inr ''undefined''"
| "ToString Null = Inr ''null''"
| "ToString (Bool b) = Inr (if b then ''true'' else ''false'')"
| "ToString (Num n) = Inr n"
| "ToString (Str s) = Inr s"
| "ToString (Arr xs) =
     (case elementStrings xs of Inl err \<Rightarrow> Inl err | Inr ss \<Rightarrow> Inr (join '','' ss))"
| "ToString (Obj kvs) =
     (if map_of kvs ''toString'' = None then Inr ''[object Object]'' else Inl TypeError)"
| "elementStrings [] = Inr []"
| "elementStrings (x # xs) =
     (case (if x = Undefined \<or> x = Null then Inr [] else ToString x) of
        Inl err \<Rightarrow> Inl err
      | Inr s \<Rightarrow>
          (case elementStrings xs of Inl err \<Rightarrow> Inl err | Inr ss \<Rightarrow> Inr (s # ss)))"

fun truthy :: "jsval \<Rightarrow> bool" where
  "truthy Undefined = False"
| "truthy Null = False"
| "truthy (Bool b) = b"
| "truthy (Num n) = (n \<noteq> ''0'')"
| "truthy (Str s) = (s \<noteq> [])"
| "truthy (Arr xs) = True"
| "truthy (Obj kvs) = True"

text \<open>
  \<open>v.k\<close> for the keys the source reads (\<open>bullets\<close>, \<open>paragraphs\<close>, \<open>data\<close>, \<open>url\<close>),
  none of which a string, a number, a boolean or an array has: reading them from
  \<open>null\<close> or \<open>undefined\<close> throws, from an object it looks the key up, from anything
  else it gives \<open>undefined\<close>.
\<close>

fun getProp :: "jsval \<Rightarrow> string \<Rightarrow> error + jsval" where
  "getProp Undefined k = Inl TypeError"
| "getProp Null k = Inl TypeError"
| "getProp (Obj kvs) k = Inr (case map_of kvs k of None \<Rightarrow> Undefined | Some v \<Rightarrow> v)"
| "getProp v k = Inr Undefined"

text \<open>\<open>v?.k\<close>: as \<open>v.k\<close>, but \<open>undefined\<close> where \<open>v.k\<close> would throw.\<close>

definition optProp :: "jsval \<Rightarrow> string \<Rightarrow> jsval" where
  "optProp v k = (case getProp v k of Inl e \<Rightarrow> Undefined | Inr w \<Rightarrow> w)"

text \<open>\<open>v?.[0]\<close>.\<close>

fun optIndex0 :: "jsval \<Rightarrow> jsval" where
  "optIndex0 (Arr (x # xs)) = x"
| "optIndex0 (Str (c # cs)) = Str [c]"
| "optIndex0 (Obj kvs) = (case map_of kvs ''0'' of None \<Rightarrow> Undefined | Some v \<Rightarrow> v)"
| "optIndex0 v = Undefined"

text \<open>\<open>Array.isArray(v) ? v : []\<close>.\<close>

fun arrayOrEmpty :: "jsval \<Rightarrow> jsval list" where
  "arrayOrEmpty (Arr xs) = xs"
| "arrayOrEmpty v = []"

subsection \<open>The outside world\<close>

text \<open>A request to the chat-completion service.\<close>

record chat_request =
  model :: string
  messages :: "(string \<times> string) list"
  temperature :: rat
  max_tokens :: nat

text \<open>Which call of a run the service is answering: the outline, or the slide at an index.\<close>

datatype call_site = OutlineSite | SlideSite nat

type_synonym call_log = "(call_site \<times> chat_request) list"

text \<open>
  \<^item> \<open>openai_create\<close>: the outcome of \<open>openai.chat.completions.create\<close>; \<open>Returns t\<close>
    carries \<open>completion.choices[0]?.message?.content\<close>, \<open>None\<close> when it is missing;
  \<^item> \<open>JSON_parse\<close>: the platform's \<open>JSON.parse\<close>, \<open>None\<close> where it throws;
  \<^item> \<open>IDEOGRAM_API_KEY\<close>: the environment variable;
  \<^item> \<open>axios_post\<close>: the image service's answer (\<open>response.data\<close>) for the slide at an
    index and a prompt;
  \<^item> \<open>axios_get\<close>, \<open>fs_writeFileSync\<close>: the download of an image and its write to disk;
  \<^item> \<open>Date_now\<close>: the clock when the file of the slide at an index is named;
  \<^item> \<open>Math_random\<close>: the draw made for the slide at an index.
\<close>

record env =
  openai_create :: "call_site \<Rightarrow> chat_request \<Rightarrow> string option outcome"
  JSON_parse :: "string \<Rightarrow> jsval option"
  IDEOGRAM_API_KEY :: "string option"
  axios_post :: "nat \<Rightarrow> string \<Rightarrow> jsval outcome"
  axios_get :: "jsval \<Rightarrow> nat list outcome"
  fs_writeFileSync :: "string \<Rightarrow> nat list \<Rightarrow> unit outcome"
  Date_now :: "nat \<Rightarrow> nat"
  Math_random :: "nat \<Rightarrow> rat"

subsection \<open>Reading a completion\<close>

text \<open>
  \<^verbatim>\<open>responseText.replace(/```json\s*|\s*```/g, '')\<close>: at each position, from left to
  right, an opening fence with the white space after it is dropped, or else a fence with
  the white space before it; otherwise the character is kept.
\<close>

function stripFences :: "string \<Rightarrow> string" where
  "stripFences s =
     (if prefix ''```json'' s then stripFences (dropWhile space (drop 7 s))
      else if prefix ''```'' (dropWhile space s) then stripFences (drop 3 (dropWhile space s))
      else (case s of [] \<Rightarrow> [] | c # cs \<Rightarrow> c # stripFences cs))"
  by pat_completeness auto
termination
proof (relation "measure length", goal_cases)
  case 1
  show ?case by simp
next
  case (2 s)
  then have "7 \<le> length s" by (auto simp: prefix_def)
  moreover have "length (dropWhile space (drop 7 s)) \<le> length (drop 7 s)"
    by (rule length_dropWhile_le)
  ultimately show ?case by simp
next
  case (3 s)
  then have "3 \<le> length (dropWhile space s)" by (auto simp: prefix_def)
  moreover have "length (dropWhile space s) \<le> length s"
    by (rule length_dropWhile_le)
  ultimately show ?case by simp
next
  case (4 s c cs)
  then show ?case by simp
qed

declare stripFences.simps [simp del]

definition cleanResponse :: "string \<Rightarrow> string" where
  "cleanResponse responseText = trim (stripFences responseText)"

text \<open>
  The lines both generators share: the text of the completion, the check that there is
  one, the cleaning, \<open>JSON.parse\<close>.
\<close>

definition parseCompletion :: "env \<Rightarrow> string option outcome \<Rightarrow> error + jsval" where
  "parseCompletion e completion =
     (case completion of
        Throws \<Rightarrow> Inl Rejected
      | Returns None \<Rightarrow> Inl (Error ''No response from OpenAI'')
      | Returns (Some responseText) \<Rightarrow>
          if responseText = [] then Inl (Error ''No response from OpenAI'')
          else (case JSON_parse e (cleanResponse responseText) of
                  None \<Rightarrow> Inl SyntaxError
                | Some parsed \<Rightarrow> Inr parsed))"

subsection \<open>generateOutline\<close>

definition outlinePrompt :: "string \<Rightarrow> int \<Rightarrow> string" where
  \<open>outlinePrompt topic numSlides =
     ''Generate '' @
     show_int numSlides @
     '' professional slide titles for "'' @
     topic @
     ''".\<newline>'' @
     ''\<newline>'' @
     ''IMPORTANT: Use ONLY these action verbs: Revolutionizing, Transforming, Accelerating, Empowering, Disrupting, Innovating\<newline>'' @
     ''\<newline>'' @
     ''BAD examples (NEVER use):\<newline>'' @
     ''- "What is '' @
     topic @
     ''"\<newline>'' @
     ''- "Introduction"\<newline>'' @
     ''- "Overview"\<newline>'' @
     ''- "How it works"\<newline>'' @
     ''- "Applications"\<newline>'' @
     ''\<newline>'' @
     ''GOOD examples for "'' @
     topic @
     ''":\<newline>'' @
     ''- "Revolutionizing Industry Standards"\<newline>'' @
     ''- "Transforming Business Models"\<newline>'' @
     ''- "Accelerating Innovation"\<newline>'' @
     ''- "Empowering Digital Transformation"\<newline>'' @
     ''\<newline>'' @
     ''Return JSON array with '' @
     show_int numSlides @
     '' professional titles.''\<close>

definition outlineRequest :: "string \<Rightarrow> int \<Rightarrow> chat_request" where
  \<open>outlineRequest topic numSlides =
     \<lparr>model = ''gpt-4o'',
      messages =
        [(''system'', ''You are a creative presentation expert who specializes in generating compelling, action-oriented slide titles. You NEVER use generic titles and always focus on impact and innovation. Always respond with valid JSON.''),
         (''user'', outlinePrompt topic numSlides)],
      temperature = 9 / 10,
      max_tokens = 200\<rparr>\<close>

text \<open>The body of the \<open>try\<close>.\<close>

definition generateOutline_try :: "env \<Rightarrow> string \<Rightarrow> int \<Rightarrow> error + jsval list" where
  "generateOutline_try e topic numSlides =
     (case parseCompletion e (openai_create e OutlineSite (outlineRequest topic numSlides)) of
        Inl err \<Rightarrow> Inl err
      | Inr parsed \<Rightarrow> Inr (arrayOrEmpty parsed))"

definition fallbackTitles :: "string \<Rightarrow> jsval list" where
  "fallbackTitles topic =
     [Str (''Introduction to '' @ topic),
      Str (''Key Concepts of '' @ topic),
      Str (''Applications of '' @ topic)]"

text \<open>The titles, and the call made to the completion service.\<close>

definition generateOutline :: "env \<Rightarrow> string \<Rightarrow> int \<Rightarrow> string \<Rightarrow> jsval list \<times> call_log" where
  "generateOutline e topic numSlides amountOfText =
     (case generateOutline_try e topic numSlides of
        Inl err \<Rightarrow> fallbackTitles topic
      | Inr titles \<Rightarrow> titles,
      [(OutlineSite, outlineRequest topic numSlides)])"

subsection \<open>generateSlideContent\<close>

text \<open>
  The prompt and the token budget (the first half of the function, before the \<open>try\<close>).
  The prompt is given the title as the template literal has converted it; the conversion
  itself, which may throw, is the first step of \<open>generateSlideContent\<close> below.
\<close>

definition slidePrompt :: "string \<Rightarrow> string \<Rightarrow> string \<Rightarrow> nat \<Rightarrow> string" where
  \<open>slidePrompt titleText topic amountOfText slideIndex =
     (if slideIndex = 0 then
        ''Generate a compelling opening paragraph for the first slide of a professional presentation.\<newline>'' @
        ''- Slide title: "'' @
        titleText @
        ''"\<newline>'' @
        ''- Topic: "'' @
        topic @
        ''"\<newline>'' @
        ''- Create a powerful hook that grabs attention\<newline>'' @
        ''- Use professional, engaging language with industry-specific terminology\<newline>'' @
        ''- Include specific insights, statistics, or compelling facts\<newline>'' @
        ''- Make it memorable and thought-provoking\<newline>'' @
        ''- Use storytelling elements or surprising statistics\<newline>'' @
        ''- Return a JSON object: { paragraphs: string[] (1 comprehensive paragraph, 40-60 words) }''
      else if slideIndex = 2 then
        (if amountOfText = ''Extensive'' then
           ''Generate professional bullet points for a presentation slide.\<newline>'' @
           ''- Slide title: "'' @
           titleText @
           ''"\<newline>'' @
           ''- Topic: "'' @
           topic @
           ''"\<newline>'' @
           ''- Amount of text: '' @
           amountOfText @
           ''\<newline>'' @
           ''- Use compelling hooks, specific examples, and actionable insights\<newline>'' @
           ''- Include relevant statistics, case studies, or industry trends\<newline>'' @
           ''- Make content engaging and memorable\<newline>'' @
           ''- Return a JSON object: { bullets: string[] (4-6 professional bullet points, 8-15 words each) }''
         else if amountOfText = ''Detailed'' then
           ''Generate detailed professional bullet points for a presentation slide.\<newline>'' @
           ''- Slide title: "'' @
           titleText @
           ''"\<newline>'' @
           ''- Topic: "'' @
           topic @
           ''"\<newline>'' @
           ''- Amount of text: '' @
           amountOfText @
           ''\<newline>'' @
           ''- Include compelling hooks and specific insights\<newline>'' @
           ''- Use professional language with concrete examples and industry terminology\<newline>'' @
           ''- Make content engaging and actionable with specific benefits\<newline>'' @
           ''- Include relevant statistics, case studies, or industry trends\<newline>'' @
           ''- Return a JSON object: { bullets: string[] (3-5 professional bullet points, 6-12 words each) }''
         else if amountOfText = ''Concise'' then
           ''Generate concise professional bullet points for a presentation slide.\<newline>'' @
           ''- Slide title: "'' @
           titleText @
           ''"\<newline>'' @
           ''- Topic: "'' @
           topic @
           ''"\<newline>'' @
           ''- Amount of text: '' @
           amountOfText @
           ''\<newline>'' @
           ''- Use engaging hooks and specific insights\<newline>'' @
           ''- Keep content clear and impactful with professional terminology\<newline>'' @
           ''- Include specific benefits or outcomes\<newline>'' @
           ''- Return a JSON object: { bullets: string[] (3-4 professional bullet points, 5-10 words each) }''
         else
           ''Generate minimal professional bullet points for a presentation slide.\<newline>'' @
           ''- Slide title: "'' @
           titleText @
           ''"\<newline>'' @
           ''- Topic: "'' @
           topic @
           ''"\<newline>'' @
           ''- Amount of text: '' @
           amountOfText @
           ''\<newline>'' @
           ''- Use compelling hooks and specific insights\<newline>'' @
           ''- Keep content clear and engaging with professional language\<newline>'' @
           ''- Include specific benefits or key takeaways\<newline>'' @
           ''- Return a JSON object: { bullets: string[] (2-3 professional bullet points, 5-8 words each) }'')
      else
        (if amountOfText = ''Extensive'' then
           ''Generate professional paragraphs for a presentation slide.\<newline>'' @
           ''- Slide title: "'' @
           titleText @
           ''"\<newline>'' @
           ''- Topic: "'' @
           topic @
           ''"\<newline>'' @
           ''- Amount of text: '' @
           amountOfText @
           ''\<newline>'' @
           ''- Use compelling hooks, specific examples, and actionable insights\<newline>'' @
           ''- Include relevant statistics, case studies, or industry trends\<newline>'' @
           ''- Make content engaging and memorable\<newline>'' @
           ''- Return a JSON object: { paragraphs: string[] (1-2 professional paragraphs, 20-30 words each) }''
         else if amountOfText = ''Detailed'' then
           ''Generate detailed professional paragraphs for a presentation slide.\<newline>'' @
           ''- Slide title: "'' @
           titleText @
           ''"\<newline>'' @
           ''- Topic: "'' @
           topic @
           ''"\<newline>'' @
           ''- Amount of text: '' @
           amountOfText @
           ''\<newline>'' @
           ''- Include compelling hooks and specific insights\<newline>'' @
           ''- Use professional language with concrete examples and industry terminology\<newline>'' @
           ''- Make content engaging and actionable with specific benefits\<newline>'' @
           ''- Include relevant statistics, case studies, or industry trends\<newline>'' @
           ''- Return a JSON object: { paragraphs: string[] (1-2 professional paragraphs, 15-25 words each) }''
         else if amountOfText = ''Concise'' then
           ''Generate concise professional paragraphs for a presentation slide.\<newline>'' @
           ''- Slide title: "'' @
           titleText @
           ''"\<newline>'' @
           ''- Topic: "'' @
           topic @
           ''"\<newline>'' @
           ''- Amount of text: '' @
           amountOfText @
           ''\<newline>'' @
           ''- Use engaging hooks and specific insights\<newline>'' @
           ''- Keep content clear and impactful with professional terminology\<newline>'' @
           ''- Include specific benefits or outcomes\<newline>'' @
           ''- Return a JSON object: { paragraphs: string[] (1-2 professional paragraphs, 20-35 words each) }''
         else
           ''Generate minimal professional paragraphs for a presentation slide.\<newline>'' @
           ''- Slide title: "'' @
           titleText @
           ''"\<newline>'' @
           ''- Topic: "'' @
           topic @
           ''"\<newline>'' @
           ''- Amount of text: '' @
           amountOfText @
           ''\<newline>'' @
           ''- Use compelling hooks and specific insights\<newline>'' @
           ''- Keep content clear and engaging with professional language\<newline>'' @
           ''- Include specific benefits or key takeaways\<newline>'' @
           ''- Return a JSON object: { paragraphs: string[] (1-2 professional paragraphs, 20-35 words each) }''))\<close>

definition maxTokens :: "string \<Rightarrow> nat \<Rightarrow> nat" where
  "maxTokens amountOfText slideIndex =
     (if slideIndex = 0 then 250
      else if slideIndex = 2 then
        (if amountOfText = ''Extensive'' then 200
         else if amountOfText = ''Detailed'' then 180
         else if amountOfText = ''Concise'' then 150
         else 120)
      else
        (if amountOfText = ''Extensive'' then 200
         else if amountOfText = ''Detailed'' then 180
         else if amountOfText = ''Concise'' then 200
         else 200))"

definition slideRequest :: "string \<Rightarrow> string \<Rightarrow> string \<Rightarrow> nat \<Rightarrow> chat_request" where
  \<open>slideRequest titleText topic amountOfText slideIndex =
     \<lparr>model = ''gpt-4o'',
      messages =
        [(''system'', ''You are a professional presentation expert specializing in creating compelling, engaging content with powerful hooks and actionable insights. Always respond with valid JSON.''),
         (''user'', slidePrompt titleText topic amountOfText slideIndex)],
      temperature = 8 / 10,
      max_tokens = maxTokens amountOfText slideIndex\<rparr>\<close>

text \<open>\<open>paragraphs.map(paragraph => paragraph.trim())\<close>: an entry that is no string throws.\<close>

fun trimAll :: "jsval list \<Rightarrow> error + jsval list" where
  "trimAll [] = Inr []"
| "trimAll (Str s # ps) =
     (case trimAll ps of Inl err \<Rightarrow> Inl err | Inr ts \<Rightarrow> Inr (Str (trim s) # ts))"
| "trimAll (v # ps) = Inl TypeError"

definition maxParagraphs :: "string \<Rightarrow> nat \<Rightarrow> nat" where
  "maxParagraphs amountOfText slideIndex =
     (if slideIndex = 0 then 1
      else if slideIndex = 2 then
        (if amountOfText = ''Extensive'' then 6
         else if amountOfText = ''Detailed'' then 5
         else if amountOfText = ''Concise'' then 4
         else 3)
      else if amountOfText = ''Extensive'' then 2
      else if amountOfText = ''Detailed'' then 2
      else if amountOfText = ''Concise'' then 1
      else 2)"

text \<open>The entries read from the parsed completion, before the cut.\<close>

definition parsedBullets :: "jsval \<Rightarrow> nat \<Rightarrow> error + jsval list" where
  "parsedBullets parsed slideIndex =
     (if slideIndex = 2 then
        (case getProp parsed ''bullets'' of
           Inl err \<Rightarrow> Inl err
         | Inr v \<Rightarrow> Inr (arrayOrEmpty v))
      else
        (case getProp parsed ''paragraphs'' of
           Inl err \<Rightarrow> Inl err
         | Inr v \<Rightarrow> trimAll (arrayOrEmpty v)))"

text \<open>The body of the \<open>try\<close>, for a prompt built from the converted title.\<close>

definition generateSlideContent_try ::
  "env \<Rightarrow> string \<Rightarrow> string \<Rightarrow> string \<Rightarrow> nat \<Rightarrow> error + jsval list" where
  "generateSlideContent_try e titleText topic amountOfText slideIndex =
     (case parseCompletion e
             (openai_create e (SlideSite slideIndex)
                (slideRequest titleText topic amountOfText slideIndex)) of
        Inl err \<Rightarrow> Inl err
      | Inr parsed \<Rightarrow>
          (case parsedBullets parsed slideIndex of
             Inl err \<Rightarrow> Inl err
           | Inr bullets \<Rightarrow> Inr (take (maxParagraphs amountOfText slideIndex) bullets)))"

definition fallbackBullets :: "nat \<Rightarrow> jsval list" where
  "fallbackBullets slideIndex =
     (if slideIndex = 0 then [Str ''Sample professional opening paragraph for slide one.'']
      else [Str ''Sample professional paragraph 1'', Str ''Sample professional paragraph 2''])"

text \<open>
  The whole function. Building the prompt converts the title to a string and comes before
  the \<open>try\<close>: when the conversion throws, the function throws and no call is made.
  Otherwise the result is the \<open>bullets\<close> of the object returned, with the call made to
  the completion service.
\<close>

definition generateSlideContent ::
  "env \<Rightarrow> jsval \<Rightarrow> string \<Rightarrow> string \<Rightarrow> nat \<Rightarrow> (error + jsval list) \<times> call_log" where
  "generateSlideContent e slideTitle topic amountOfText slideIndex =
     (case ToString slideTitle of
        Inl err \<Rightarrow> (Inl err, [])
      | Inr titleText \<Rightarrow>
          (Inr (case generateSlideContent_try e titleText topic amountOfText slideIndex of
                  Inl err \<Rightarrow> fallbackBullets slideIndex
                | Inr bullets \<Rightarrow> bullets),
           [(SlideSite slideIndex, slideRequest titleText topic amountOfText slideIndex)]))"

subsection \<open>downloadAndSaveImage, generateIdeogramImage\<close>

text \<open>The local address of the saved file, \<open>None\<close> for \<open>null\<close>.\<close>

definition downloadAndSaveImage :: "env \<Rightarrow> jsval \<Rightarrow> string \<Rightarrow> string option" where
  "downloadAndSaveImage e imageUrl filename =
     (case axios_get e imageUrl of
        Throws \<Rightarrow> None
      | Returns bytes \<Rightarrow>
          (case fs_writeFileSync e filename bytes of
             Throws \<Rightarrow> None
           | Returns u \<Rightarrow> Some (''/uploads/'' @ filename)))"

text \<open>The body of the \<open>try\<close>. The style is only written to the console.\<close>

definition generateIdeogramImage_try ::
  "env \<Rightarrow> string \<Rightarrow> string option \<Rightarrow> nat \<Rightarrow> error + string" where
  "generateIdeogramImage_try e prompt style slideIndex =
     (if IDEOGRAM_API_KEY e = None \<or> IDEOGRAM_API_KEY e = Some [] then
        Inl (Error ''No Ideogram API key found'')
      else
        (case axios_post e slideIndex prompt of
           Throws \<Rightarrow> Inl Rejected
         | Returns data \<Rightarrow>
             (let imageUrl = optProp (optIndex0 (optProp data ''data'')) ''url'' in
              if truthy imageUrl then
                (let filename = generateImageFilename prompt slideIndex (Date_now e slideIndex) in
                 case downloadAndSaveImage e imageUrl filename of
                   Some localUrl \<Rightarrow> Inr localUrl
                 | None \<Rightarrow> Inl (Error ''Failed to download Ideogram image''))
              else Inl (Error ''No image_url in Ideogram API response''))))"

text \<open>The local address of the image, \<open>None\<close> for \<open>null\<close>.\<close>

definition generateIdeogramImage ::
  "env \<Rightarrow> string \<Rightarrow> string option \<Rightarrow> nat \<Rightarrow> string option" where
  "generateIdeogramImage e prompt style slideIndex =
     (case generateIdeogramImage_try e prompt style slideIndex of
        Inl err \<Rightarrow> None
      | Inr localUrl \<Rightarrow> Some localUrl)"

subsection \<open>POST /api/generate\<close>

record outline_entry =
  entry_title :: "string option"

text \<open>
  The body of the request, with the types of the specification's data model. A field that
  may be missing is an option.
\<close>

record generation_request =
  title :: string
  outline :: "outline_entry list option"
  theme :: "string option"
  amountOfText :: string
  slideCount :: "int option"
  imageSource :: string
  imageStyle :: "string option"

record image =
  url :: string
  alt :: jsval
  source :: string
  style :: "string option"

text \<open>
  A field of the source that holds \<open>undefined\<close>, and so is left out of the response, is
  \<open>None\<close> here.
\<close>

record SlideRecord =
  slide_id :: string
  slide_title :: jsval
  bullets :: "jsval list"
  layout :: "string option"
  slide_theme :: "string option"
  image :: "image option"

record meta =
  meta_title :: string
  meta_theme :: "string option"
  meta_amountOfText :: string
  meta_imageSource :: string
  meta_imageStyle :: "string option"

record generate_body =
  slides :: "SlideRecord list"
  meta :: meta

text \<open>What a handler sends: a JSON body, or the status 500 with a message and the error.\<close>

datatype 'a response = Json 'a | Status500 string error

definition numSlides :: "generation_request \<Rightarrow> int" where
  "numSlides req =
     (case outline req of
        Some (s # ss) \<Rightarrow> int (length (s # ss))
      | _ \<Rightarrow> (case slideCount req of
                Some n \<Rightarrow> if n = 0 then 5 else n
              | None \<Rightarrow> 5))"

text \<open>\<open>s.title\<close> of an entry of the outline.\<close>

definition titleOf :: "outline_entry \<Rightarrow> jsval" where
  "titleOf s = (case entry_title s of None \<Rightarrow> Undefined | Some t \<Rightarrow> Str t)"

definition outlineTitles :: "env \<Rightarrow> generation_request \<Rightarrow> jsval list \<times> call_log" where
  "outlineTitles e req =
     (case outline req of
        Some (s # ss) \<Rightarrow>
          if truthy (titleOf s) then (map titleOf (s # ss), [])
          else generateOutline e (title req) (numSlides req) (amountOfText req)
      | _ \<Rightarrow> generateOutline e (title req) (numSlides req) (amountOfText req))"

definition layoutOptions :: "string list" where
  "layoutOptions = [''image-left'', ''image-right'', ''image-bottom'', ''text-only'']"

text \<open>
  \<open>Math.floor(Math.random() * layoutOptions.length)\<close>, then the entry at that index,
  \<open>undefined\<close> outside the array. The product by 4 is exact in floating point, so the
  draw is a rational number here.
\<close>

definition chooseLayout :: "env \<Rightarrow> nat \<Rightarrow> string option" where
  "chooseLayout e idx =
     (if idx = 0 then Some ''image-left''
      else (let randomIndex = \<lfloor>Math_random e idx * of_nat (length layoutOptions)\<rfloor> in
            if 0 \<le> randomIndex \<and> randomIndex < int (length layoutOptions)
            then Some (layoutOptions ! nat randomIndex) else None))"

text \<open>
  The callback of \<open>outlineTitles.map\<close>: the record of one slide, or what the callback
  throws, and the call it made. The prompt for the image converts the title once more.
\<close>

definition makeSlide ::
  "env \<Rightarrow> generation_request \<Rightarrow> nat \<Rightarrow> jsval \<Rightarrow> (error + SlideRecord) \<times> call_log" where
  "makeSlide e req idx slideTitle =
     (let content = generateSlideContent e slideTitle (title req) (amountOfText req) idx
      in case fst content of
           Inl err \<Rightarrow> (Inl err, snd content)
         | Inr contentBullets \<Rightarrow>
             (case (if imageSource req \<noteq> ''None'' then
                      (case ToString slideTitle of
                         Inl err \<Rightarrow> Inl err
                       | Inr titleText \<Rightarrow>
                           Inr (generateIdeogramImage e
                                  (titleText @ '' '' @
                                     (case imageStyle req of None \<Rightarrow> [] | Some st \<Rightarrow> st))
                                  (imageStyle req) idx))
                    else Inr None) of
                Inl err \<Rightarrow> (Inl err, snd content)
              | Inr imageUrl \<Rightarrow>
                  (Inr \<lparr>slide_id = ''slide-'' @ show_nat (idx + 1),
                        slide_title = slideTitle,
                        bullets = contentBullets,
                        layout = chooseLayout e idx,
                        slide_theme = theme req,
                        image =
                          (case imageUrl of
                             None \<Rightarrow> None
                           | Some u \<Rightarrow>
                               if u = [] then None
                               else Some \<lparr>url = u, alt = slideTitle, source = imageSource req,
                                          style = imageStyle req\<rparr>)\<rparr>,
                   snd content)))"

text \<open>
  \<open>Promise.all\<close> over the callbacks: the list of their results, or the error of the first
  one that throws.
\<close>

fun Promise_all :: "(error + 'a) list \<Rightarrow> error + 'a list" where
  "Promise_all [] = Inr []"
| "Promise_all (Inl err # rs) = Inl err"
| "Promise_all (Inr x # rs) =
     (case Promise_all rs of Inl err \<Rightarrow> Inl err | Inr xs \<Rightarrow> Inr (x # xs))"

text \<open>
  The body of the handler's \<open>try\<close>, with the calls made to the completion service. Every
  callback is started, so a callback that throws does not keep the others from making
  their calls. The response lists the slides in the order of the titles; the log lists
  the calls by slide, not by time.
\<close>

definition generate_try ::
  "env \<Rightarrow> generation_request \<Rightarrow> (error + generate_body) \<times> call_log" where
  "generate_try e req =
     (let titles = outlineTitles e req;
          made = map (\<lambda>(idx, slideTitle). makeSlide e req idx slideTitle)
                   (enumerate 0 (fst titles))
      in (case Promise_all (map fst made) of
            Inl err \<Rightarrow> Inl err
          | Inr made_slides \<Rightarrow>
              Inr \<lparr>slides = made_slides,
                   meta = \<lparr>meta_title = title req, meta_theme = theme req,
                            meta_amountOfText = amountOfText req,
                            meta_imageSource = imageSource req,
                            meta_imageStyle = imageStyle req\<rparr>\<rparr>,
          snd titles @ concat (map snd made)))"

definition post_generate :: "env \<Rightarrow> generation_request \<Rightarrow> generate_body response \<times> call_log" where
  "post_generate e req =
     (case fst (generate_try e req) of
        Inl err \<Rightarrow> Status500 ''Failed to generate slides'' err
      | Inr body \<Rightarrow> Json body,
      snd (generate_try e req))"

subsection \<open>POST /api/generate-image\<close>

record image_request =
  req_prompt :: string
  req_style :: "string option"
  req_slideIndex :: "nat option"

record image_body =
  imageUrl :: "string option"

definition generate_image_try :: "env \<Rightarrow> image_request \<Rightarrow> error + image_body" where
  "generate_image_try e req =
     Inr \<lparr>imageUrl =
            generateIdeogramImage e (req_prompt req) (req_style req)
              (case req_slideIndex req of None \<Rightarrow> 0 | Some i \<Rightarrow> i)\<rparr>"

definition post_generate_image :: "env \<Rightarrow> image_request \<Rightarrow> image_body response" where
  "post_generate_image e req =
     (case generate_image_try e req of
        Inl err \<Rightarrow> Status500 ''Failed to generate image'' err
      | Inr body \<Rightarrow> Json body)"

subsection \<open>Environments and requests for the examples\<close>

text \<open>Every remote call fails and no key is set.\<close>

definition offline :: env where
  "offline =
     \<lparr>openai_create = (\<lambda>site r. Throws),
      JSON_parse = (\<lambda>s. None),
      IDEOGRAM_API_KEY = None,
      axios_post = (\<lambda>i p. Throws),
      axios_get = (\<lambda>u. Throws),
      fs_writeFileSync = (\<lambda>f b. Throws),
      Date_now = (\<lambda>i. 0),
      Math_random = (\<lambda>i. 0)\<rparr>"

text \<open>
  \<open>JSON.parse\<close> on the texts of the examples: an empty object, an empty array, an
  object with two paragraphs, an array of one object with a property \<open>toString\<close>. The
  examples hand it no other text.
\<close>

definition parseSample :: "string \<Rightarrow> jsval option" where
  \<open>parseSample s =
     (if s = ''{}'' then Some (Obj [])
      else if s = ''[]'' then Some (Arr [])
      else if s = ''{"paragraphs":[" Sun ","Wind"]}''
        then Some (Obj [(''paragraphs'', Arr [Str '' Sun '', Str ''Wind''])])
      else if s = ''[{"toString":1}]''
        then Some (Arr [Obj [(''toString'', Num ''1'')]])
      else None)\<close>

text \<open>The completion service answers every call with the same text.\<close>

definition answering :: "string \<Rightarrow> env" where
  "answering text =
     offline\<lparr>openai_create := (\<lambda>site r. Returns (Some text)), JSON_parse := parseSample\<rparr>"

text \<open>The image service answers with an address, and the download and the write succeed.\<close>

definition withImages :: env where
  "withImages =
     offline\<lparr>IDEOGRAM_API_KEY := Some ''key'',
             axios_post := (\<lambda>i p. Returns (Obj [(''data'', Arr [Obj [(''url'', Str ''http://img'')]])])),
             axios_get := (\<lambda>u. Returns []),
             fs_writeFileSync := (\<lambda>f b. Returns ())\<rparr>"

text \<open>The request of the end-to-end scenario.\<close>

definition solarRequest :: generation_request where
  "solarRequest =
     \<lparr>title = ''Solar Power'', outline = Some [], theme = None, amountOfText = ''Minimal'',
      slideCount = Some 3, imageSource = ''None'', imageStyle = None\<rparr>"

text \<open>A request with an outline of the given entries.\<close>

definition outlined :: "string option list \<Rightarrow> string \<Rightarrow> generation_request" where
  "outlined ts amt =
     \<lparr>title = ''Solar Power'', outline = Some (map (\<lambda>t. \<lparr>entry_title = t\<rparr>) ts),
      theme = Some ''dark'', amountOfText = amt, slideCount = None,
      imageSource = ''Ideogram'', imageStyle = Some ''flat''\<rparr>"

section \<open>Properties\<close>

subsection \<open>Reading a completion, slide by slide\<close>

lemma parseCompletion_Inl:
  assumes "c = Throws \<or> c = Returns None \<or> c = Returns (Some []) \<or>
           (\<exists>t. c = Returns (Some t) \<and> JSON_parse e (cleanResponse t) = None)"
  shows "\<exists>err. parseCompletion e c = Inl err"
  using assms by (auto simp: parseCompletion_def)

lemma parseCompletion_Inr:
  assumes "c = Returns (Some t)" "t \<noteq> []" "JSON_parse e (cleanResponse t) = Some v"
  shows "parseCompletion e c = Inr v"
  using assms by (simp add: parseCompletion_def)

lemma trimAll_length: "trimAll ps = Inr ts \<Longrightarrow> length ts = length ps"
  by (induction ps arbitrary: ts rule: trimAll.induct) (auto split: sum.splits)

lemma content_throw:
  "ToString t = Inl err \<Longrightarrow> generateSlideContent e t topic amt i = (Inl err, [])"
  by (simp add: generateSlideContent_def)

lemma content_Inl:
  "ToString t = Inr s \<Longrightarrow> generateSlideContent_try e s topic amt i = Inl err \<Longrightarrow>
   fst (generateSlideContent e t topic amt i) = Inr (fallbackBullets i)"
  by (simp add: generateSlideContent_def)

lemma content_Inr:
  "ToString t = Inr s \<Longrightarrow> generateSlideContent_try e s topic amt i = Inr bs \<Longrightarrow>
   fst (generateSlideContent e t topic amt i) = Inr bs"
  by (simp add: generateSlideContent_def)

lemma content_calls:
  "ToString t = Inr s \<Longrightarrow>
   snd (generateSlideContent e t topic amt i) = [(SlideSite i, slideRequest s topic amt i)]"
  by (simp add: generateSlideContent_def)

lemma content_sites: "fst ` set (snd (generateSlideContent e t topic amt i)) \<subseteq> {SlideSite i}"
  by (cases "ToString t") (simp_all add: generateSlideContent_def)

lemma content_try_length:
  "generateSlideContent_try e s topic amt i = Inr bs \<Longrightarrow> length bs \<le> maxParagraphs amt i"
  by (auto simp: generateSlideContent_try_def split: sum.splits)

lemma content_try_paragraphs:
  assumes "i \<noteq> 2"
    and "parseCompletion e (openai_create e (SlideSite i) (slideRequest s topic amt i)) = Inr parsed"
    and "getProp parsed ''paragraphs'' = Inr v"
  shows "generateSlideContent_try e s topic amt i =
           (case trimAll (arrayOrEmpty v) of
              Inl err \<Rightarrow> Inl err
            | Inr ts \<Rightarrow> Inr (take (maxParagraphs amt i) ts))"
  using assms by (simp add: generateSlideContent_try_def parsedBullets_def)

subsection \<open>The response and the calls of /api/generate\<close>

lemma Promise_all_map_Inr: "Promise_all (map Inr xs) = Inr xs"
  by (induction xs) simp_all

lemma Promise_all_Inr: "Promise_all rs = Inr xs \<Longrightarrow> rs = map Inr xs"
  by (induction rs arbitrary: xs rule: Promise_all.induct) (auto split: sum.splits)

lemma makeSlide_throw: "ToString t = Inl err \<Longrightarrow> makeSlide e req i t = (Inl err, [])"
  by (simp add: makeSlide_def content_throw)

lemma makeSlide_Inr:
  assumes "ToString t = Inr s"
  shows "\<exists>r. fst (makeSlide e req i t) = Inr r"
  using assms by (simp add: makeSlide_def generateSlideContent_def)

lemma makeSlide_Inr_iff:
  "(\<exists>r. fst (makeSlide e req i t) = Inr r) \<longleftrightarrow> (\<exists>s. ToString t = Inr s)"
proof (cases "ToString t")
  case (Inl err)
  then show ?thesis by (simp add: makeSlide_throw)
next
  case (Inr s)
  then show ?thesis using makeSlide_Inr by simp
qed

lemma makeSlide_fields:
  assumes "fst (makeSlide e req i t) = Inr r"
  shows "slide_id r = ''slide-'' @ show_nat (i + 1)"
    and "slide_title r = t"
    and "fst (generateSlideContent e t (title req) (amountOfText req) i) = Inr (bullets r)"
    and "layout r = chooseLayout e i"
    and "slide_theme r = theme req"
  using assms by (auto simp: makeSlide_def Let_def split: sum.splits if_splits)

lemma makeSlide_calls:
  "snd (makeSlide e req i t) =
     snd (generateSlideContent e t (title req) (amountOfText req) i)"
  by (simp add: makeSlide_def Let_def split: sum.splits)

lemma makeSlide_no_image:
  "imageSource req = ''None'' \<Longrightarrow> fst (makeSlide e req i t) = Inr r \<Longrightarrow> image r = None"
  by (auto simp: makeSlide_def Let_def split: sum.splits)

lemma makeSlide_image:
  "fst (makeSlide e req i t) = Inr r \<Longrightarrow> image r = Some im \<Longrightarrow>
   alt im = t \<and> source im = imageSource req \<and> style im = imageStyle req"
  by (auto simp: makeSlide_def Let_def split: sum.splits option.splits if_splits)

lemma post_generate_calls_eq:
  "snd (post_generate e req) =
     snd (outlineTitles e req) @
     concat (map (\<lambda>(idx, t). snd (makeSlide e req idx t))
               (enumerate 0 (fst (outlineTitles e req))))"
  by (simp add: post_generate_def generate_try_def Let_def split_def comp_def)

lemma post_generate_Json:
  assumes "fst (post_generate e req) = Json body"
  shows "map (\<lambda>(idx, t). fst (makeSlide e req idx t)) (enumerate 0 (fst (outlineTitles e req)))
           = map Inr (slides body)"
    and "meta body = \<lparr>meta_title = title req, meta_theme = theme req,
                       meta_amountOfText = amountOfText req,
                       meta_imageSource = imageSource req,
                       meta_imageStyle = imageStyle req\<rparr>"
  using assms
  by (auto simp: post_generate_def generate_try_def Let_def split_def comp_def
      split: sum.splits dest!: Promise_all_Inr)

lemma post_generate_made:
  assumes "map (\<lambda>(idx, t). fst (makeSlide e req idx t)) (enumerate 0 (fst (outlineTitles e req)))
           = map Inr xs"
  shows "fst (post_generate e req) =
           Json \<lparr>slides = xs,
                  meta = \<lparr>meta_title = title req, meta_theme = theme req,
                           meta_amountOfText = amountOfText req,
                           meta_imageSource = imageSource req,
                           meta_imageStyle = imageStyle req\<rparr>\<rparr>"
  using assms
  by (simp add: post_generate_def generate_try_def Let_def split_def comp_def Promise_all_map_Inr)

lemma slides_length:
  "fst (post_generate e req) = Json body \<Longrightarrow>
   length (slides body) = length (fst (outlineTitles e req))"
  using arg_cong [OF post_generate_Json(1), where f = length] by simp

lemma slides_nth:
  assumes "fst (post_generate e req) = Json body" and "i < length (slides body)"
  shows "fst (makeSlide e req i (fst (outlineTitles e req) ! i)) = Inr (slides body ! i)"
proof -
  have l: "i < length (fst (outlineTitles e req))"
    using assms slides_length by simp
  have "map (\<lambda>(idx, t). fst (makeSlide e req idx t)) (enumerate 0 (fst (outlineTitles e req))) ! i
          = map Inr (slides body) ! i"
    using post_generate_Json(1) [OF assms(1)] by simp
  then show ?thesis using l assms(2) by (simp add: nth_enumerate_eq)
qed

lemma post_generate_titles:
  assumes "fst (post_generate e req) = Json body"
  shows "map slide_title (slides body) = fst (outlineTitles e req)"
proof (rule nth_equalityI)
  show "length (map slide_title (slides body)) = length (fst (outlineTitles e req))"
    using slides_length [OF assms] by simp
next
  fix i assume "i < length (map slide_title (slides body))"
  then have i: "i < length (slides body)" by simp
  show "map slide_title (slides body) ! i = fst (outlineTitles e req) ! i"
    using makeSlide_fields(2) [OF slides_nth [OF assms i]] i by simp
qed

lemma post_generate_Json_iff:
  "(\<exists>body. fst (post_generate e req) = Json body) \<longleftrightarrow>
   (\<forall>t \<in> set (fst (outlineTitles e req)). \<exists>s. ToString t = Inr s)"
proof
  assume "\<exists>body. fst (post_generate e req) = Json body"
  then obtain body where b: "fst (post_generate e req) = Json body" by blast
  show "\<forall>t \<in> set (fst (outlineTitles e req)). \<exists>s. ToString t = Inr s"
  proof
    fix t assume "t \<in> set (fst (outlineTitles e req))"
    then obtain i where i: "i < length (fst (outlineTitles e req))"
      and t: "fst (outlineTitles e req) ! i = t"
      by (auto simp: in_set_conv_nth)
    then have "fst (makeSlide e req i t) = Inr (slides body ! i)"
      using slides_nth [OF b, of i] slides_length [OF b] by simp
    then show "\<exists>s. ToString t = Inr s" using makeSlide_Inr_iff by blast
  qed
next
  assume a: "\<forall>t \<in> set (fst (outlineTitles e req)). \<exists>s. ToString t = Inr s"
  have "\<exists>xs. map (\<lambda>(idx, t). fst (makeSlide e req idx t)) (enumerate n ts) = map Inr xs"
    if "\<forall>t \<in> set ts. \<exists>s. ToString t = Inr s" for ts n
    using that
  proof (induction ts arbitrary: n)
    case Nil
    then show ?case by simp
  next
    case (Cons t ts)
    then obtain xs where
      xs: "map (\<lambda>(idx, t). fst (makeSlide e req idx t)) (enumerate (Suc n) ts) = map Inr xs"
      by fastforce
    from Cons.prems obtain r where "fst (makeSlide e req n t) = Inr r"
      using makeSlide_Inr_iff [of e req n t] by auto
    then have "map (\<lambda>(idx, t). fst (makeSlide e req idx t)) (enumerate n (t # ts)) = map Inr (r # xs)"
      using xs by simp
    then show ?case by blast
  qed
  from this [OF a, of 0] post_generate_made show "\<exists>body. fst (post_generate e req) = Json body"
    by blast
qed

lemma chooseLayout_first: "chooseLayout e 0 = Some ''image-left''"
  by (simp add: chooseLayout_def)

lemma chooseLayout_range:
  assumes "0 \<le> Math_random e i" and "Math_random e i < 1"
  shows "\<exists>l \<in> set layoutOptions. chooseLayout e i = Some l"
proof (cases "i = 0")
  case True
  then show ?thesis by (simp add: chooseLayout_def layoutOptions_def)
next
  case False
  define k where "k = \<lfloor>Math_random e i * 4\<rfloor>"
  have k: "0 \<le> k" "k < 4"
    using assms by (simp_all add: k_def floor_less_iff)
  have len: "length layoutOptions = 4" by (simp add: layoutOptions_def)
  have "chooseLayout e i = Some (layoutOptions ! nat k)"
    using False k by (simp add: chooseLayout_def len k_def Let_def)
  moreover have "layoutOptions ! nat k \<in> set layoutOptions"
    using k len by (intro nth_mem) simp
  ultimately show ?thesis by blast
qed

lemma generateIdeogramImage_no_key:
  "IDEOGRAM_API_KEY e = None \<Longrightarrow> generateIdeogramImage e p st i = None"
  by (simp add: generateIdeogramImage_def generateIdeogramImage_try_def)

subsection \<open>Where the titles come from\<close>

lemma truthy_titleOf:
  "truthy (titleOf s) \<longleftrightarrow> (\<exists>t. entry_title s = Some t \<and> t \<noteq> [])"
  by (cases "entry_title s") (simp_all add: titleOf_def)

lemma ToString_titleOf: "\<exists>s. ToString (titleOf x) = Inr s"
  by (cases "entry_title x") (simp_all add: titleOf_def)

lemma outlineTitles_supplied:
  "outline req = Some (s # ss) \<Longrightarrow> truthy (titleOf s) \<Longrightarrow>
   outlineTitles e req = (map titleOf (s # ss), [])"
  by (simp add: outlineTitles_def)

lemma outlineTitles_generated:
  assumes "outline req = None \<or> outline req = Some [] \<or>
           (\<exists>s ss. outline req = Some (s # ss) \<and> \<not> truthy (titleOf s))"
  shows "outlineTitles e req =
           generateOutline e (title req) (numSlides req) (amountOfText req)"
  using assms by (auto simp: outlineTitles_def)

lemma generateOutline_calls:
  "snd (generateOutline e topic n amt) = [(OutlineSite, outlineRequest topic n)]"
  by (simp add: generateOutline_def)

lemma generateOutline_titles:
  "(\<forall>err. generateOutline_try e topic n = Inl err \<longrightarrow>
      fst (generateOutline e topic n amt) = fallbackTitles topic) \<and>
   (\<forall>xs. generateOutline_try e topic n = Inr xs \<longrightarrow> fst (generateOutline e topic n amt) = xs)"
  by (simp add: generateOutline_def)


lemma ToString_fallbackTitles: "t \<in> set (fallbackTitles topic) \<Longrightarrow> \<exists>s. ToString t = Inr s"
  by (auto simp: fallbackTitles_def)

lemma slide_calls_sites:
  "OutlineSite \<notin> fst ` set (concat (map (\<lambda>(idx, t). snd (makeSlide e req idx t)) xs))"
  using content_sites by (fastforce simp: makeSlide_calls)

lemma outline_call_iff:
  "OutlineSite \<in> fst ` set (snd (post_generate e req)) \<longleftrightarrow> snd (outlineTitles e req) \<noteq> []"
proof -
  have "OutlineSite \<in> fst ` set (snd (post_generate e req)) \<longleftrightarrow>
        OutlineSite \<in> fst ` set (snd (outlineTitles e req))"
    unfolding post_generate_calls_eq
    using slide_calls_sites [of e req "enumerate 0 (fst (outlineTitles e req))"]
    by (simp only: set_append image_Un Un_iff) blast
  moreover have "OutlineSite \<in> fst ` set (snd (outlineTitles e req)) \<longleftrightarrow>
                 snd (outlineTitles e req) \<noteq> []"
    by (auto simp: outlineTitles_def generateOutline_calls split: option.splits list.splits)
  ultimately show ?thesis by simp
qed


lemma sublist_after: "sublist topic (pre @ topic)"
  by simp

lemma sublist_fallbackTitles:
  assumes "v \<in> set (fallbackTitles topic)"
  shows "\<exists>s. v = Str s \<and> sublist topic s"
proof -
  have "\<exists>s. Str (pre @ topic) = Str s \<and> sublist topic s" for pre
    using sublist_after by blast
  moreover have "v = Str (''Introduction to '' @ topic) \<or> v = Str (''Key Concepts of '' @ topic) \<or>
                 v = Str (''Applications of '' @ topic)"
    using assms unfolding fallbackTitles_def by (simp only: list.set insert_iff empty_iff) blast
  ultimately show ?thesis by blast
qed

subsection \<open>Evaluation of the examples\<close>

lemma cleanResponse_object: "cleanResponse ''{}'' = ''{}''"
  by (simp add: cleanResponse_def stripFences.simps trim_def space_def)

lemma cleanResponse_array: "cleanResponse ''[]'' = ''[]''"
  by (simp add: cleanResponse_def stripFences.simps trim_def space_def)

lemma cleanResponse_paragraphs:
  \<open>cleanResponse ''{"paragraphs":[" Sun ","Wind"]}'' = ''{"paragraphs":[" Sun ","Wind"]}''\<close>
  by (simp add: cleanResponse_def stripFences.simps trim_def space_def)

lemma cleanResponse_toString:
  \<open>cleanResponse ''[{"toString":1}]'' = ''[{"toString":1}]''\<close>
  by (simp add: cleanResponse_def stripFences.simps trim_def space_def)

lemma cleanResponse_fenced: "cleanResponse ''```json\<newline>[]\<newline>```'' = ''[]''"
  by (simp add: cleanResponse_def stripFences.simps trim_def space_def)

lemma parseCompletion_answering:
  "parseCompletion (answering text) (openai_create (answering text) site r) =
     (if text = [] then Inl (Error ''No response from OpenAI'')
      else case parseSample (cleanResponse text) of None \<Rightarrow> Inl SyntaxError | Some v \<Rightarrow> Inr v)"
  by (simp add: parseCompletion_def answering_def)

lemma parseCompletion_offline:
  "parseCompletion offline (openai_create offline site r) = Inl Rejected"
  by (simp add: parseCompletion_def offline_def)

lemma key_offline: "IDEOGRAM_API_KEY offline = None"
  by (simp add: offline_def)

lemma key_answering: "IDEOGRAM_API_KEY (answering text) = None"
  by (simp add: answering_def offline_def)

lemma content_try_offline: "generateSlideContent_try offline s topic amt i = Inl Rejected"
  by (simp add: generateSlideContent_try_def parseCompletion_offline)

lemma content_try_object: "generateSlideContent_try (answering ''{}'') s topic amt i = Inr []"
  by (simp add: generateSlideContent_try_def parseCompletion_answering cleanResponse_object
      parseSample_def parsedBullets_def)

lemma trim_Sun: "trim '' Sun '' = ''Sun''" and trim_Wind: "trim ''Wind'' = ''Wind''"
  by (simp_all add: trim_def space_def)

lemma parse_paragraphs:
  \<open>parseCompletion (answering ''{"paragraphs":[" Sun ","Wind"]}'')
     (openai_create (answering ''{"paragraphs":[" Sun ","Wind"]}'') site r) =
   Inr (Obj [(''paragraphs'', Arr [Str '' Sun '', Str ''Wind''])])\<close>
  by (simp add: parseCompletion_answering cleanResponse_paragraphs parseSample_def)

lemma content_try_paragraphs_sample:
  \<open>i \<noteq> 2 \<Longrightarrow>
   generateSlideContent_try (answering ''{"paragraphs":[" Sun ","Wind"]}'') s topic amt i =
     Inr (take (maxParagraphs amt i) [Str ''Sun'', Str ''Wind''])\<close>
  by (simp add: generateSlideContent_try_def parse_paragraphs parsedBullets_def trim_Sun trim_Wind)

lemma outlineTitles_solar:
  "outlineTitles e solarRequest = generateOutline e ''Solar Power'' 3 ''Minimal''"
  by (simp add: outlineTitles_def solarRequest_def numSlides_def)


lemma outline_toString:
  \<open>fst (generateOutline (answering ''[{"toString":1}]'') ''Solar Power'' 3 ''Minimal'') =
     [Obj [(''toString'', Num ''1'')]]\<close>
  by (simp add: generateOutline_def generateOutline_try_def parseCompletion_answering
      cleanResponse_toString parseSample_def)

lemma image_withImages:
  "generateIdeogramImage withImages ''Sun flat'' (Some ''flat'') 0 =
     Some ''/uploads/slide_0_Sun_flat_0.jpg''"
  by (simp add: generateIdeogramImage_def generateIdeogramImage_try_def withImages_def
      offline_def optProp_def downloadAndSaveImage_def generateImageFilename_def
      sanitizedPrompt_def alnum_def show_nat.simps digit_def Let_def)

subsection \<open>The first slide\<close>

text \<open>
  Claim C1. The slide at index 0 is to have the layout \<open>image-left\<close> and exactly one
  entry in \<open>bullets\<close>, on the success path as on the fallback path: the comments of
  \<open>generateSlideContent\<close> say that the first slide always has one paragraph, and its
  \<open>catch\<close> supplies exactly one. The success path only cuts the array to one entry and
  never fills it. Here the outline has the one title Sun and the completion for the slide
  is the text \<open>{}\<close>, an object without \<open>paragraphs\<close>: the response is sent with the
  layout \<open>image-left\<close> and with no entry at all for the first slide.
\<close>

theorem C1_first_slide_empty:
  "fst (post_generate (answering ''{}'') (outlined [Some ''Sun''] ''Minimal'')) =
     Json \<lparr>slides = [\<lparr>slide_id = ''slide-1'', slide_title = Str ''Sun'', bullets = [],
                       layout = Some ''image-left'', slide_theme = Some ''dark'', image = None\<rparr>],
            meta = \<lparr>meta_title = ''Solar Power'', meta_theme = Some ''dark'',
                     meta_amountOfText = ''Minimal'', meta_imageSource = ''Ideogram'',
                     meta_imageStyle = Some ''flat''\<rparr>\<rparr>"
proof -
  let ?E = "answering ''{}''"
  let ?R = "outlined [Some ''Sun''] ''Minimal''"
  have t: "outlineTitles ?E ?R = ([Str ''Sun''], [])"
    by (simp add: outlineTitles_def outlined_def titleOf_def)
  have c: "fst (generateSlideContent ?E (Str ''Sun'') (title ?R) (amountOfText ?R) 0) = Inr []"
    by (simp add: content_Inr [OF _ content_try_object])
  have m: "fst (makeSlide ?E ?R 0 (Str ''Sun'')) =
             Inr \<lparr>slide_id = ''slide-1'', slide_title = Str ''Sun'', bullets = [],
                  layout = Some ''image-left'', slide_theme = Some ''dark'', image = None\<rparr>"
    by (simp add: makeSlide_def Let_def c generateIdeogramImage_no_key [OF key_answering]
        chooseLayout_def show_nat.simps digit_def)
       (simp add: outlined_def)
  show ?thesis
    using post_generate_made [of ?E ?R "[\<lparr>slide_id = ''slide-1'', slide_title = Str ''Sun'',
      bullets = [], layout = Some ''image-left'', slide_theme = Some ''dark'', image = None\<rparr>]"]
    by (simp add: t m) (simp add: outlined_def)
qed

subsection \<open>The other slides\<close>

text \<open>
  Claim C2, as the code has it. At a slide index other than 0 and 2, for a title that the
  prompt can be built from, the entries returned on the success path are at most 2, and
  at most 1 when the amount of text is Concise, exactly 1 then when the \<open>paragraphs\<close>
  of the completion are a non-empty array of strings. On the fallback path the function
  returns the two sample paragraphs, whatever the amount of text. For a title that cannot
  be converted to a string the function throws before the \<open>try\<close> and returns nothing.
\<close>

theorem C2_other_slides:
  assumes "i \<noteq> 0" and "i \<noteq> 2"
  shows "(\<forall>s bs. ToString t = Inr s \<and> generateSlideContent_try e s topic amt i = Inr bs
            \<longrightarrow> fst (generateSlideContent e t topic amt i) = Inr bs \<and>
                length bs \<le> (if amt = ''Concise'' then 1 else 2)) \<and>
         (\<forall>s err. ToString t = Inr s \<and> generateSlideContent_try e s topic amt i = Inl err
            \<longrightarrow> fst (generateSlideContent e t topic amt i) =
                  Inr [Str ''Sample professional paragraph 1'',
                       Str ''Sample professional paragraph 2'']) \<and>
         (\<forall>s parsed p ps ts.
            ToString t = Inr s \<and>
            parseCompletion e (openai_create e (SlideSite i) (slideRequest s topic amt i))
              = Inr parsed \<and>
            getProp parsed ''paragraphs'' = Inr (Arr (p # ps)) \<and> trimAll (p # ps) = Inr ts \<and>
            amt = ''Concise''
            \<longrightarrow> (\<exists>b. fst (generateSlideContent e t topic amt i) = Inr [b])) \<and>
         (\<forall>err. ToString t = Inl err
            \<longrightarrow> generateSlideContent e t topic amt i = (Inl err, []))"
proof (intro conjI allI impI)
  fix s bs
  assume a: "ToString t = Inr s \<and> generateSlideContent_try e s topic amt i = Inr bs"
  then have c: "ToString t = Inr s" and r: "generateSlideContent_try e s topic amt i = Inr bs"
    by blast+
  show "fst (generateSlideContent e t topic amt i) = Inr bs"
    by (rule content_Inr [OF c r])
  show "length bs \<le> (if amt = ''Concise'' then 1 else 2)"
    using content_try_length [OF r] assms by (simp add: maxParagraphs_def split: if_splits)
next
  fix s err
  assume "ToString t = Inr s \<and> generateSlideContent_try e s topic amt i = Inl err"
  then have "fst (generateSlideContent e t topic amt i) = Inr (fallbackBullets i)"
    using content_Inl by blast
  then show "fst (generateSlideContent e t topic amt i) =
      Inr [Str ''Sample professional paragraph 1'', Str ''Sample professional paragraph 2'']"
    using assms by (simp add: fallbackBullets_def)
next
  fix s parsed p ps ts
  assume a: "ToString t = Inr s \<and>
            parseCompletion e (openai_create e (SlideSite i) (slideRequest s topic amt i))
              = Inr parsed \<and>
            getProp parsed ''paragraphs'' = Inr (Arr (p # ps)) \<and> trimAll (p # ps) = Inr ts \<and>
            amt = ''Concise''"
  then have c: "ToString t = Inr s"
    and p: "parseCompletion e (openai_create e (SlideSite i) (slideRequest s topic amt i))
              = Inr parsed"
    and g: "getProp parsed ''paragraphs'' = Inr (Arr (p # ps))"
    and tr: "trimAll (p # ps) = Inr ts" and cc: "amt = ''Concise''"
    by blast+
  have "generateSlideContent_try e s topic amt i = Inr (take (maxParagraphs amt i) ts)"
    using content_try_paragraphs [OF assms(2) p g] tr by simp
  moreover have "length ts = Suc (length ps)" using trimAll_length [OF tr] by simp
  moreover have "maxParagraphs amt i = 1" using cc assms by (simp add: maxParagraphs_def)
  ultimately have "generateSlideContent_try e s topic amt i = Inr [hd ts]"
    by (cases ts) simp_all
  then show "\<exists>b. fst (generateSlideContent e t topic amt i) = Inr [b]"
    using content_Inr [OF c] by blast
next
  fix err
  assume "ToString t = Inl err"
  then show "generateSlideContent e t topic amt i = (Inl err, [])"
    by (rule content_throw)
qed

theorem C2_other_slides_witness:
  \<open>(1::nat) \<noteq> 0 \<and> (1::nat) \<noteq> 2 \<and> ToString (Str ''Sun'') = Inr ''Sun'' \<and>
   generateSlideContent_try offline ''Sun'' ''Solar Power'' ''Detailed'' 1 = Inl Rejected \<and>
   fst (generateSlideContent offline (Str ''Sun'') ''Solar Power'' ''Detailed'' 1) =
     Inr [Str ''Sample professional paragraph 1'', Str ''Sample professional paragraph 2''] \<and>
   generateSlideContent_try (answering ''{"paragraphs":[" Sun ","Wind"]}'') ''Sun''
     ''Solar Power'' ''Concise'' 1 = Inr [Str ''Sun''] \<and>
   fst (generateSlideContent (answering ''{"paragraphs":[" Sun ","Wind"]}'') (Str ''Sun'')
     ''Solar Power'' ''Concise'' 1) = Inr [Str ''Sun''] \<and>
   length [Str ''Sun''] \<le> (if ''Concise'' = ''Concise'' then 1 else (2::nat)) \<and>
   ToString (Obj [(''toString'', Num ''1'')]) = Inl TypeError \<and>
   generateSlideContent offline (Obj [(''toString'', Num ''1'')]) ''Solar Power'' ''Concise'' 1 =
     (Inl TypeError, [])\<close>
proof -
  let ?E = \<open>answering ''{"paragraphs":[" Sun ","Wind"]}''\<close>
  have n: "(1::nat) \<noteq> 0" "(1::nat) \<noteq> 2" by simp_all
  have c: "ToString (Str ''Sun'') = Inr ''Sun''" by simp
  have d: "ToString (Obj [(''toString'', Num ''1'')]) = Inl TypeError" by simp
  have a: "generateSlideContent_try offline ''Sun'' ''Solar Power'' ''Detailed'' 1 = Inl Rejected"
    by (rule content_try_offline)
  have b: "generateSlideContent_try ?E ''Sun'' ''Solar Power'' ''Concise'' 1 = Inr [Str ''Sun'']"
    by (simp add: content_try_paragraphs_sample maxParagraphs_def)
  from C2_other_slides [OF n, of "Str ''Sun''" offline "''Solar Power''" "''Detailed''"] a c
  have "fst (generateSlideContent offline (Str ''Sun'') ''Solar Power'' ''Detailed'' 1) =
     Inr [Str ''Sample professional paragraph 1'', Str ''Sample professional paragraph 2'']"
    by blast
  moreover from C2_other_slides [OF n, of "Str ''Sun''" ?E "''Solar Power''" "''Concise''"] b c
  have "fst (generateSlideContent ?E (Str ''Sun'') ''Solar Power'' ''Concise'' 1) = Inr [Str ''Sun''] \<and>
        length [Str ''Sun''] \<le> (if ''Concise'' = ''Concise'' then 1 else (2::nat))"
    by blast
  moreover from C2_other_slides [OF n, of "Obj [(''toString'', Num ''1'')]" offline
      "''Solar Power''" "''Concise''"] d
  have "generateSlideContent offline (Obj [(''toString'', Num ''1'')]) ''Solar Power'' ''Concise'' 1 =
     (Inl TypeError, [])"
    by blast
  ultimately show ?thesis using a b c d by simp
qed

text \<open>
  The completion call fails for a Concise slide at index 1: two entries come back, one
  more than the cut of the success path allows.
\<close>

theorem C2_counterexample:
  "generateSlideContent_try offline ''Sun'' ''Solar Power'' ''Concise'' 1 = Inl Rejected \<and>
   fst (generateSlideContent offline (Str ''Sun'') ''Solar Power'' ''Concise'' 1) =
     Inr [Str ''Sample professional paragraph 1'', Str ''Sample professional paragraph 2''] \<and>
   length [Str ''Sample professional paragraph 1'', Str ''Sample professional paragraph 2''] = 2 \<and>
   maxParagraphs ''Concise'' 1 = 1"
  by (simp add: content_try_offline content_Inl [OF _ content_try_offline]
      fallbackBullets_def maxParagraphs_def)

subsection \<open>The fallback of the outline\<close>

text \<open>
  Claim C3, as the code has it. When the call to the completion service throws, or its
  answer has no content, or \<open>JSON.parse\<close> rejects the cleaned content, \<open>generateOutline\<close>
  returns the three fallback titles, each of which contains the topic. When the content
  parses, the function returns the parsed array, and the empty list when the parsed value
  is not an array: that case is no failure and gives no fallback title.
\<close>

theorem C3_outline_fallback:
  "(openai_create e OutlineSite (outlineRequest topic n) = Throws \<or>
    openai_create e OutlineSite (outlineRequest topic n) = Returns None \<or>
    openai_create e OutlineSite (outlineRequest topic n) = Returns (Some []) \<or>
    (\<exists>t. openai_create e OutlineSite (outlineRequest topic n) = Returns (Some t) \<and>
         JSON_parse e (cleanResponse t) = None)
    \<longrightarrow> fst (generateOutline e topic n amt) =
          [Str (''Introduction to '' @ topic), Str (''Key Concepts of '' @ topic),
           Str (''Applications of '' @ topic)] \<and>
        length (fst (generateOutline e topic n amt)) = 3 \<and>
        (\<forall>v \<in> set (fst (generateOutline e topic n amt)). \<exists>s. v = Str s \<and> sublist topic s)) \<and>
   (\<forall>t v. openai_create e OutlineSite (outlineRequest topic n) = Returns (Some t) \<and> t \<noteq> [] \<and>
          JSON_parse e (cleanResponse t) = Some v
      \<longrightarrow> fst (generateOutline e topic n amt) = arrayOrEmpty v \<and>
          ((\<forall>xs. v \<noteq> Arr xs) \<longrightarrow> fst (generateOutline e topic n amt) = []))"
proof (intro conjI impI allI)
  assume "openai_create e OutlineSite (outlineRequest topic n) = Throws \<or>
    openai_create e OutlineSite (outlineRequest topic n) = Returns None \<or>
    openai_create e OutlineSite (outlineRequest topic n) = Returns (Some []) \<or>
    (\<exists>t. openai_create e OutlineSite (outlineRequest topic n) = Returns (Some t) \<and>
         JSON_parse e (cleanResponse t) = None)"
  then obtain err where
    "parseCompletion e (openai_create e OutlineSite (outlineRequest topic n)) = Inl err"
    using parseCompletion_Inl by blast
  then have fb: "fst (generateOutline e topic n amt) = fallbackTitles topic"
    by (simp add: generateOutline_def generateOutline_try_def)
  show "fst (generateOutline e topic n amt) =
          [Str (''Introduction to '' @ topic), Str (''Key Concepts of '' @ topic),
           Str (''Applications of '' @ topic)]"
    using fb by (simp add: fallbackTitles_def)
  show "length (fst (generateOutline e topic n amt)) = 3"
    using fb by (simp add: fallbackTitles_def)
  show "\<forall>v \<in> set (fst (generateOutline e topic n amt)). \<exists>s. v = Str s \<and> sublist topic s"
    using fb sublist_fallbackTitles by simp
next
  fix t v
  assume a: "openai_create e OutlineSite (outlineRequest topic n) = Returns (Some t) \<and> t \<noteq> [] \<and>
          JSON_parse e (cleanResponse t) = Some v"
  then have "parseCompletion e (openai_create e OutlineSite (outlineRequest topic n)) = Inr v"
    using parseCompletion_Inr by blast
  then show r: "fst (generateOutline e topic n amt) = arrayOrEmpty v"
    by (simp add: generateOutline_def generateOutline_try_def)
  assume "\<forall>xs. v \<noteq> Arr xs"
  then have "arrayOrEmpty v = []" by (cases v) auto
  with r show "fst (generateOutline e topic n amt) = []" by simp
qed

theorem C3_outline_fallback_witness:
  "openai_create offline OutlineSite (outlineRequest ''Solar Power'' 3) = Throws \<and>
   fst (generateOutline offline ''Solar Power'' 3 ''Minimal'') =
     [Str ''Introduction to Solar Power'', Str ''Key Concepts of Solar Power'',
      Str ''Applications of Solar Power''] \<and>
   openai_create (answering ''{}'') OutlineSite (outlineRequest ''Solar Power'' 3) =
     Returns (Some ''{}'') \<and>
   ''{}'' \<noteq> [] \<and> JSON_parse (answering ''{}'') (cleanResponse ''{}'') = Some (Obj []) \<and>
   fst (generateOutline (answering ''{}'') ''Solar Power'' 3 ''Minimal'') = arrayOrEmpty (Obj [])"
proof -
  have a: "openai_create offline OutlineSite (outlineRequest ''Solar Power'' 3) = Throws"
    by (simp add: offline_def)
  have b: "openai_create (answering ''{}'') OutlineSite (outlineRequest ''Solar Power'' 3) =
             Returns (Some ''{}'') \<and> ''{}'' \<noteq> [] \<and>
           JSON_parse (answering ''{}'') (cleanResponse ''{}'') = Some (Obj [])"
    by (simp add: answering_def cleanResponse_object parseSample_def)
  from C3_outline_fallback [of offline "''Solar Power''" 3 "''Minimal''"] a
  have "fst (generateOutline offline ''Solar Power'' 3 ''Minimal'') =
     [Str (''Introduction to '' @ ''Solar Power''), Str (''Key Concepts of '' @ ''Solar Power''),
      Str (''Applications of '' @ ''Solar Power'')]"
    by blast
  moreover from C3_outline_fallback [of "answering ''{}''" "''Solar Power''" 3 "''Minimal''"] b
  have "fst (generateOutline (answering ''{}'') ''Solar Power'' 3 ''Minimal'') = arrayOrEmpty (Obj [])"
    by blast
  ultimately show ?thesis using a b by simp
qed

text \<open>
  The completion is the text \<open>{}\<close>: valid JSON that is no array. The function returns
  no title at all.
\<close>

theorem C3_counterexample:
  "openai_create (answering ''{}'') OutlineSite (outlineRequest ''Solar Power'' 3) =
     Returns (Some ''{}'') \<and>
   JSON_parse (answering ''{}'') (cleanResponse ''{}'') = Some (Obj []) \<and>
   fst (generateOutline (answering ''{}'') ''Solar Power'' 3 ''Minimal'') = []"
  by (simp add: generateOutline_def generateOutline_try_def parseCompletion_answering
      cleanResponse_object parseSample_def)
     (simp add: answering_def cleanResponse_object parseSample_def)

subsection \<open>The number of titles asked for\<close>




subsection \<open>The end-to-end scenario\<close>

text \<open>
  Claim C5, as the code has it. For the request with the title Solar Power, an empty
  outline, a slide count of 3, the amount of text Minimal and the image source None, the
  handler answers with slides exactly when every title the outline generator returned can
  be converted to a string, and with the status 500 otherwise. It answers with three
  slides when the completion for the outline fails (the fallback titles). Whenever it
  answers with slides, they carry the titles the generator returned, in their order, as
  many as the array of the completion has; the first slide has the layout
  \<open>image-left\<close>, every other slide whose draw lies in \<open>[0, 1)\<close> has one of the four
  layouts, no slide has an image, and the title of \<open>meta\<close> is Solar Power.
\<close>

theorem C5_solar_scenario:
  "((\<exists>body. fst (post_generate e solarRequest) = Json body) \<longleftrightarrow>
      (\<forall>t \<in> set (fst (generateOutline e ''Solar Power'' 3 ''Minimal'')). \<exists>s. ToString t = Inr s)) \<and>
   ((\<exists>body. fst (post_generate e solarRequest) = Json body) \<or>
    (\<exists>err. fst (post_generate e solarRequest) = Status500 ''Failed to generate slides'' err)) \<and>
   (\<forall>err. generateOutline_try e ''Solar Power'' 3 = Inl err \<longrightarrow>
      (\<exists>body. fst (post_generate e solarRequest) = Json body \<and> length (slides body) = 3)) \<and>
   (\<forall>body. fst (post_generate e solarRequest) = Json body \<longrightarrow>
      map slide_title (slides body) = fst (generateOutline e ''Solar Power'' 3 ''Minimal'') \<and>
      (\<forall>xs. generateOutline_try e ''Solar Power'' 3 = Inr xs \<longrightarrow>
         length (slides body) = length xs) \<and>
      (slides body \<noteq> [] \<longrightarrow> layout (slides body ! 0) = Some ''image-left'') \<and>
      (\<forall>i. 0 < i \<and> i < length (slides body) \<and> 0 \<le> Math_random e i \<and> Math_random e i < 1
         \<longrightarrow> (\<exists>l \<in> set layoutOptions. layout (slides body ! i) = Some l)) \<and>
      (\<forall>i < length (slides body). image (slides body ! i) = None) \<and>
      meta_title (meta body) = ''Solar Power'')"
proof -
  have 1: "(\<exists>body. fst (post_generate e solarRequest) = Json body) \<longleftrightarrow>
      (\<forall>t \<in> set (fst (generateOutline e ''Solar Power'' 3 ''Minimal'')). \<exists>s. ToString t = Inr s)"
    using post_generate_Json_iff [of e solarRequest] by (simp add: outlineTitles_solar)
  have 2: "(\<exists>body. fst (post_generate e solarRequest) = Json body) \<or>
    (\<exists>err. fst (post_generate e solarRequest) = Status500 ''Failed to generate slides'' err)"
    by (cases "fst (generate_try e solarRequest)") (simp_all add: post_generate_def)
  have 3: "\<exists>body. fst (post_generate e solarRequest) = Json body \<and> length (slides body) = 3"
    if f: "generateOutline_try e ''Solar Power'' 3 = Inl err" for err
  proof -
    have t: "fst (outlineTitles e solarRequest) = fallbackTitles ''Solar Power''"
      using f generateOutline_titles [of e "''Solar Power''" 3 "''Minimal''"]
      by (simp add: outlineTitles_solar)
    then have "\<forall>t \<in> set (fst (outlineTitles e solarRequest)). \<exists>s. ToString t = Inr s"
      using ToString_fallbackTitles by simp
    then obtain body where b: "fst (post_generate e solarRequest) = Json body"
      using post_generate_Json_iff by blast
    have "length (slides body) = 3"
      using slides_length [OF b] by (simp add: t fallbackTitles_def)
    with b show ?thesis by blast
  qed
  have 4: "map slide_title (slides body) = fst (generateOutline e ''Solar Power'' 3 ''Minimal'') \<and>
      (\<forall>xs. generateOutline_try e ''Solar Power'' 3 = Inr xs \<longrightarrow>
         length (slides body) = length xs) \<and>
      (slides body \<noteq> [] \<longrightarrow> layout (slides body ! 0) = Some ''image-left'') \<and>
      (\<forall>i. 0 < i \<and> i < length (slides body) \<and> 0 \<le> Math_random e i \<and> Math_random e i < 1
         \<longrightarrow> (\<exists>l \<in> set layoutOptions. layout (slides body ! i) = Some l)) \<and>
      (\<forall>i < length (slides body). image (slides body ! i) = None) \<and>
      meta_title (meta body) = ''Solar Power''"
    if b: "fst (post_generate e solarRequest) = Json body" for body
  proof -
    have t: "map slide_title (slides body) = fst (generateOutline e ''Solar Power'' 3 ''Minimal'')"
      using post_generate_titles [OF b] by (simp add: outlineTitles_solar)
    have l: "length (slides body) = length (fst (generateOutline e ''Solar Power'' 3 ''Minimal''))"
      using arg_cong [OF t, where f = length] by simp
    have n: "fst (makeSlide e solarRequest i (fst (outlineTitles e solarRequest) ! i)) =
               Inr (slides body ! i)"
      if "i < length (slides body)" for i
      using slides_nth [OF b that] .
    have x: "\<forall>xs. generateOutline_try e ''Solar Power'' 3 = Inr xs \<longrightarrow>
           length (slides body) = length xs"
      using l generateOutline_titles [of e "''Solar Power''" 3 "''Minimal''"] by simp
    have f: "slides body \<noteq> [] \<longrightarrow> layout (slides body ! 0) = Some ''image-left''"
      using makeSlide_fields(4) [OF n [of 0]] by (simp add: chooseLayout_first)
    have r: "\<forall>i. 0 < i \<and> i < length (slides body) \<and> 0 \<le> Math_random e i \<and> Math_random e i < 1
           \<longrightarrow> (\<exists>l \<in> set layoutOptions. layout (slides body ! i) = Some l)"
      using makeSlide_fields(4) [OF n] chooseLayout_range by simp
    have i: "\<forall>i < length (slides body). image (slides body ! i) = None"
      using makeSlide_no_image [OF _ n] by (simp add: solarRequest_def)
    have m: "meta_title (meta body) = ''Solar Power''"
      using post_generate_Json(2) [OF b] by (simp add: solarRequest_def)
    from t x f r i m show ?thesis by blast
  qed
  from 1 2 3 4 show ?thesis by blast
qed

theorem C5_solar_scenario_witness:
  \<open>(\<exists>body. fst (post_generate (offline\<lparr>Math_random := (\<lambda>i. 3 / 4)\<rparr>) solarRequest) = Json body \<and>
      length (slides body) = 3 \<and>
      layout (slides body ! 0) = Some ''image-left'' \<and>
      (0::nat) < 1 \<and> 1 < length (slides body) \<and>
      (0::rat) \<le> Math_random (offline\<lparr>Math_random := (\<lambda>i. 3 / 4)\<rparr>) 1 \<and>
      Math_random (offline\<lparr>Math_random := (\<lambda>i. 3 / 4)\<rparr>) 1 < 1 \<and>
      (\<exists>l \<in> set layoutOptions. layout (slides body ! 1) = Some l) \<and>
      image (slides body ! 2) = None \<and>
      meta_title (meta body) = ''Solar Power'') \<and>
   ToString (Obj [(''toString'', Num ''1'')]) = Inl TypeError \<and>
   (\<exists>err. fst (post_generate (answering ''[{"toString":1}]'') solarRequest) =
      Status500 ''Failed to generate slides'' err)\<close>
proof -
  let ?E = "offline\<lparr>Math_random := (\<lambda>i. 3 / 4)\<rparr>"
  let ?F = \<open>answering ''[{"toString":1}]''\<close>
  have f: "generateOutline_try ?E ''Solar Power'' 3 = Inl Rejected"
    by (simp add: generateOutline_try_def parseCompletion_def offline_def)
  have r: "(0::rat) \<le> Math_random ?E 1 \<and> Math_random ?E 1 < 1"
    by simp
  from C5_solar_scenario [of ?E] f obtain body where
    b: "fst (post_generate ?E solarRequest) = Json body" and len: "length (slides body) = 3"
    by blast
  from C5_solar_scenario [of ?E] b have
    3: "slides body \<noteq> [] \<longrightarrow> layout (slides body ! 0) = Some ''image-left''"
    and 4: "\<forall>i. 0 < i \<and> i < length (slides body) \<and> 0 \<le> Math_random ?E i \<and> Math_random ?E i < 1
         \<longrightarrow> (\<exists>l \<in> set layoutOptions. layout (slides body ! i) = Some l)"
    and 5: "\<forall>i < length (slides body). image (slides body ! i) = None"
    and 6: "meta_title (meta body) = ''Solar Power''"
    by blast+
  from len have ne: "slides body \<noteq> []" by auto
  have "\<exists>l \<in> set layoutOptions. layout (slides body ! 1) = Some l"
    using 4 [rule_format, of 1] len r by simp
  moreover have "image (slides body ! 2) = None" using 5 len by simp
  ultimately have one: "\<exists>body. fst (post_generate ?E solarRequest) = Json body \<and>
      length (slides body) = 3 \<and>
      layout (slides body ! 0) = Some ''image-left'' \<and>
      (0::nat) < 1 \<and> 1 < length (slides body) \<and>
      (0::rat) \<le> Math_random ?E 1 \<and> Math_random ?E 1 < 1 \<and>
      (\<exists>l \<in> set layoutOptions. layout (slides body ! 1) = Some l) \<and>
      image (slides body ! 2) = None \<and>
      meta_title (meta body) = ''Solar Power''"
    using b len 3 ne 6 r by auto
  have d: "ToString (Obj [(''toString'', Num ''1'')]) = Inl TypeError" by simp
  have "\<not> (\<forall>t \<in> set (fst (generateOutline ?F ''Solar Power'' 3 ''Minimal'')). \<exists>s. ToString t = Inr s)"
    by (simp add: outline_toString)
  with C5_solar_scenario [of ?F]
  have "\<exists>err. fst (post_generate ?F solarRequest) = Status500 ''Failed to generate slides'' err"
    by blast
  with one d show ?thesis by blast
qed

text \<open>
  The completion is the text \<open>[]\<close>, an array without titles: the response has no
  slide.
\<close>

theorem C5_counterexample:
  "fst (post_generate (answering ''[]'') solarRequest) =
     Json \<lparr>slides = [],
            meta = \<lparr>meta_title = ''Solar Power'', meta_theme = None,
                     meta_amountOfText = ''Minimal'', meta_imageSource = ''None'',
                     meta_imageStyle = None\<rparr>\<rparr>"
proof -
  have "generateOutline_try (answering ''[]'') ''Solar Power'' 3 = Inr []"
    by (simp add: generateOutline_try_def parseCompletion_answering cleanResponse_array
        parseSample_def)
  then have "fst (outlineTitles (answering ''[]'') solarRequest) = []"
    by (simp add: outlineTitles_solar generateOutline_def)
  then show ?thesis
    using post_generate_made [of "answering ''[]''" solarRequest "[]"]
    by simp (simp add: solarRequest_def)
qed

subsection \<open>The image service without a key\<close>

text \<open>
  Claim C6. When the variable \<open>IDEOGRAM_API_KEY\<close> is not set, \<open>generateIdeogramImage\<close>
  returns \<open>null\<close> for every prompt, style and slide index, and the handler of
  \<open>/api/generate-image\<close> answers with the body \<open>{imageUrl: null}\<close>, not with the
  status 500.
\<close>

theorem C6_no_key:
  assumes "IDEOGRAM_API_KEY e = None"
  shows "generateIdeogramImage e p st i = None \<and>
         post_generate_image e req = Json \<lparr>imageUrl = None\<rparr>"
  using assms
  by (simp add: generateIdeogramImage_def generateIdeogramImage_try_def
      post_generate_image_def generate_image_try_def)

theorem C6_no_key_witness:
  "IDEOGRAM_API_KEY offline = None \<and>
   generateIdeogramImage offline ''sun'' (Some ''flat'') 4 = None \<and>
   post_generate_image offline
     \<lparr>req_prompt = ''sun'', req_style = Some ''flat'', req_slideIndex = Some 4\<rparr>
     = Json \<lparr>imageUrl = None\<rparr>"
proof -
  have k: "IDEOGRAM_API_KEY offline = None" by (simp add: offline_def)
  from C6_no_key [OF k] k show ?thesis by simp
qed

subsection \<open>The token budget\<close>

text \<open>
  Claim C7, as the code has it. The request for a slide carries the budget \<open>maxTokens\<close>.
  It is 250 at index 0 for every amount of text; at index 2 it is 200, 180, 150, 120 for
  Extensive, Detailed, Concise, Minimal; at every other index it is 200, 180, 200, 200:
  it does not decrease with the amount of text there.
\<close>

theorem C7_maxTokens:
  "max_tokens (slideRequest t topic amt i) = maxTokens amt i \<and>
   maxTokens amt 0 = 250 \<and>
   maxTokens ''Extensive'' 2 = 200 \<and> maxTokens ''Detailed'' 2 = 180 \<and>
   maxTokens ''Concise'' 2 = 150 \<and> maxTokens ''Minimal'' 2 = 120 \<and>
   (i \<noteq> 0 \<and> i \<noteq> 2 \<longrightarrow>
      maxTokens ''Extensive'' i = 200 \<and> maxTokens ''Detailed'' i = 180 \<and>
      maxTokens ''Concise'' i = 200 \<and> maxTokens ''Minimal'' i = 200)"
  by (simp add: maxTokens_def slideRequest_def)

theorem C7_maxTokens_witness:
  "(1::nat) \<noteq> 0 \<and> (1::nat) \<noteq> 2 \<and>
   maxTokens ''Extensive'' 1 = 200 \<and> maxTokens ''Detailed'' 1 = 180 \<and>
   maxTokens ''Concise'' 1 = 200 \<and> maxTokens ''Minimal'' 1 = 200"
  using C7_maxTokens [of "''Sun''" "''x''" "''Minimal''" 1] by simp

text \<open>At index 1 the budget of Concise is above the budget of Detailed.\<close>

theorem C7_counterexample:
  "maxTokens ''Detailed'' 1 = 180 \<and> maxTokens ''Concise'' 1 = 200 \<and>
   \<not> maxTokens ''Concise'' 1 \<le> maxTokens ''Detailed'' 1 \<and> maxTokens ''Concise'' 2 = 150"
  by (simp add: maxTokens_def)

subsection \<open>The name of an image file\<close>

text \<open>
  Claim C8, as the code has it. The name of the file is a function of the prompt, the
  slide index and the time stamp. The fragment of the prompt in it has the length of the
  prompt, at most 20, and each of its characters is the prompt's character at that place
  when it is a letter or a digit, and an underscore otherwise: a character outside
  \<open>[a-zA-Z0-9]\<close> is replaced, not removed.
\<close>

theorem C8_filename:
  "generateImageFilename p i t =
     ''slide_'' @ show_nat i @ ''_'' @ sanitizedPrompt p @ ''_'' @ show_nat t @ ''.jpg'' \<and>
   length (sanitizedPrompt p) = min 20 (length p) \<and>
   (\<forall>k < length (sanitizedPrompt p).
      sanitizedPrompt p ! k = (if alnum (p ! k) then p ! k else CHR ''_''))"
  by (simp add: generateImageFilename_def sanitizedPrompt_def min_def)

theorem C8_filename_witness:
  "(1::nat) < length (sanitizedPrompt ''a b'') \<and> sanitizedPrompt ''a b'' ! 1 = CHR ''_'' \<and>
   length (sanitizedPrompt ''a b'') = 3"
proof -
  have len: "(1::nat) < length (sanitizedPrompt ''a b'')"
    by (simp add: sanitizedPrompt_def)
  from C8_filename [of "''a b''" 0 0] len
  have "sanitizedPrompt ''a b'' ! 1 = (if alnum (''a b'' ! 1) then ''a b'' ! 1 else CHR ''_'')"
    by blast
  moreover from C8_filename [of "''a b''" 0 0]
  have "length (sanitizedPrompt ''a b'') = min 20 (length ''a b'')"
    by blast
  ultimately show ?thesis using len by (simp add: alnum_def)
qed

text \<open>
  The claim as the specification words it (the characters are removed) fails on a prompt
  with a blank: the blank is still there, as an underscore.
\<close>

theorem C8_counterexample:
  "generateImageFilename ''a b'' 0 0 = ''slide_0_a_b_0.jpg'' \<and>
   sanitizedPrompt ''a b'' = ''a_b'' \<and> filter alnum ''a b'' = ''ab'' \<and> \<not> alnum (CHR ''_'')"
  by (simp add: generateImageFilename_def sanitizedPrompt_def alnum_def show_nat.simps digit_def)

subsection \<open>When the outline generator runs\<close>

text \<open>
  Claim C9, as the code has it. The run contains an outline request exactly when the
  outline of the request is missing or empty or its first entry has no title (or an empty
  one): the other entries are not looked at. In particular, when the outline has entries
  and each of them has a non-empty title, no outline request is made and the slides carry
  the supplied titles, in their order.
\<close>

theorem C9_outline_generator_invoked:
  "(OutlineSite \<in> fst ` set (snd (post_generate e req)) \<longleftrightarrow>
      outline req = None \<or> outline req = Some [] \<or>
      (\<exists>s ss. outline req = Some (s # ss) \<and> (entry_title s = None \<or> entry_title s = Some []))) \<and>
   (\<forall>s ss. outline req = Some (s # ss) \<and>
           (\<forall>x \<in> set (s # ss). \<exists>t. entry_title x = Some t \<and> t \<noteq> [])
      \<longrightarrow> OutlineSite \<notin> fst ` set (snd (post_generate e req)) \<and>
          (\<exists>body. fst (post_generate e req) = Json body \<and>
             map slide_title (slides body) =
               map (\<lambda>x. case entry_title x of None \<Rightarrow> Undefined | Some t \<Rightarrow> Str t) (s # ss)))"
proof (intro conjI allI impI)
  show "OutlineSite \<in> fst ` set (snd (post_generate e req)) \<longleftrightarrow>
      outline req = None \<or> outline req = Some [] \<or>
      (\<exists>s ss. outline req = Some (s # ss) \<and> (entry_title s = None \<or> entry_title s = Some []))"
  proof (cases "outline req = None \<or> outline req = Some [] \<or>
           (\<exists>s ss. outline req = Some (s # ss) \<and> \<not> truthy (titleOf s))")
    case True
    then have "snd (outlineTitles e req) \<noteq> []"
      by (simp add: outlineTitles_generated generateOutline_calls)
    moreover from True have "outline req = None \<or> outline req = Some [] \<or>
      (\<exists>s ss. outline req = Some (s # ss) \<and> (entry_title s = None \<or> entry_title s = Some []))"
      by (auto simp: truthy_titleOf)
    ultimately show ?thesis by (simp add: outline_call_iff)
  next
    case False
    then obtain s ss where o: "outline req = Some (s # ss)" "truthy (titleOf s)"
      by (cases "outline req") (auto simp: neq_Nil_conv)
    then have "snd (outlineTitles e req) = []"
      by (simp add: outlineTitles_supplied)
    moreover from o have "\<not> (outline req = None \<or> outline req = Some [] \<or>
      (\<exists>s ss. outline req = Some (s # ss) \<and> (entry_title s = None \<or> entry_title s = Some [])))"
      by (auto simp: truthy_titleOf)
    ultimately show ?thesis by (simp add: outline_call_iff)
  qed
next
  fix s ss
  assume a: "outline req = Some (s # ss) \<and>
           (\<forall>x \<in> set (s # ss). \<exists>t. entry_title x = Some t \<and> t \<noteq> [])"
  then have tr: "truthy (titleOf s)" by (simp add: truthy_titleOf)
  have ot: "outlineTitles e req = (map titleOf (s # ss), [])"
    using a tr by (simp add: outlineTitles_supplied)
  show "OutlineSite \<notin> fst ` set (snd (post_generate e req))"
    by (simp add: outline_call_iff ot)
  have "\<forall>t \<in> set (fst (outlineTitles e req)). \<exists>s. ToString t = Inr s"
    unfolding ot using ToString_titleOf by auto
  then obtain body where b: "fst (post_generate e req) = Json body"
    using post_generate_Json_iff by blast
  have "map slide_title (slides body) = map titleOf (s # ss)"
    using post_generate_titles [OF b] by (simp add: ot)
  then show "\<exists>body. fst (post_generate e req) = Json body \<and>
             map slide_title (slides body) =
               map (\<lambda>x. case entry_title x of None \<Rightarrow> Undefined | Some t \<Rightarrow> Str t) (s # ss)"
    using b by (simp add: titleOf_def del: list.map)
qed

theorem C9_outline_generator_invoked_witness:
  "outline solarRequest = Some [] \<and>
   OutlineSite \<in> fst ` set (snd (post_generate offline solarRequest)) \<and>
   outline (outlined [Some ''Sun'', Some ''Wind''] ''Minimal'') =
     Some [\<lparr>entry_title = Some ''Sun''\<rparr>, \<lparr>entry_title = Some ''Wind''\<rparr>] \<and>
   OutlineSite \<notin> fst ` set (snd (post_generate offline (outlined [Some ''Sun'', Some ''Wind''] ''Minimal''))) \<and>
   (\<exists>body. fst (post_generate offline (outlined [Some ''Sun'', Some ''Wind''] ''Minimal'')) = Json body \<and>
      map slide_title (slides body) = [Str ''Sun'', Str ''Wind''])"
proof -
  let ?R = "outlined [Some ''Sun'', Some ''Wind''] ''Minimal''"
  have a: "outline solarRequest = Some []" by (simp add: solarRequest_def)
  have b: "outline ?R = Some (\<lparr>entry_title = Some ''Sun''\<rparr> # [\<lparr>entry_title = Some ''Wind''\<rparr>]) \<and>
           (\<forall>x \<in> set (\<lparr>entry_title = Some ''Sun''\<rparr> # [\<lparr>entry_title = Some ''Wind''\<rparr>]).
              \<exists>t. entry_title x = Some t \<and> t \<noteq> [])"
    by (simp add: outlined_def)
  from C9_outline_generator_invoked [of offline solarRequest] a
  have "OutlineSite \<in> fst ` set (snd (post_generate offline solarRequest))" by blast
  moreover from C9_outline_generator_invoked [of offline ?R] b
  have "OutlineSite \<notin> fst ` set (snd (post_generate offline ?R)) \<and>
        (\<exists>body. fst (post_generate offline ?R) = Json body \<and>
           map slide_title (slides body) =
             map (\<lambda>x. case entry_title x of None \<Rightarrow> Undefined | Some t \<Rightarrow> Str t)
               (\<lparr>entry_title = Some ''Sun''\<rparr> # [\<lparr>entry_title = Some ''Wind''\<rparr>]))"
    by blast
  ultimately show ?thesis using a b by simp
qed

text \<open>
  An outline whose second entry has no title: no outline request is made, and the second
  title is \<open>undefined\<close>.
\<close>

theorem C9_counterexample:
  "outline (outlined [Some ''Sun'', None] ''Minimal'') =
     Some [\<lparr>entry_title = Some ''Sun''\<rparr>, \<lparr>entry_title = None\<rparr>] \<and>
   fst (outlineTitles offline (outlined [Some ''Sun'', None] ''Minimal'')) = [Str ''Sun'', Undefined] \<and>
   OutlineSite \<notin> fst ` set (snd (post_generate offline (outlined [Some ''Sun'', None] ''Minimal'')))"
proof -
  have "outlineTitles offline (outlined [Some ''Sun'', None] ''Minimal'') = ([Str ''Sun'', Undefined], [])"
    by (simp add: outlineTitles_def outlined_def titleOf_def)
  then show ?thesis by (simp add: outline_call_iff) (simp add: outlined_def)
qed

subsection \<open>The records of the slides\<close>

text \<open>
  Claim C10. In every response of \<open>/api/generate\<close>, the slide at position \<open>i\<close> (from 0)
  has the id \<open>slide-\<close> followed by \<open>i + 1\<close> and the theme of the request; and when it
  has an image, the \<open>alt\<close> of the image is the title of the slide, its \<open>source\<close> the
  image source of the request and its \<open>style\<close> the image style of the request.
\<close>

theorem C10_slide_records:
  assumes "fst (post_generate e req) = Json body" and "i < length (slides body)"
  shows "slide_id (slides body ! i) = ''slide-'' @ show_nat (i + 1) \<and>
         slide_theme (slides body ! i) = theme req \<and>
         (\<forall>im. image (slides body ! i) = Some im \<longrightarrow>
            alt im = slide_title (slides body ! i) \<and> source im = imageSource req \<and>
            style im = imageStyle req)"
  using makeSlide_fields(1,2,5) [OF slides_nth [OF assms]]
    makeSlide_image [OF slides_nth [OF assms]]
  by simp

theorem C10_slide_records_witness:
  "fst (post_generate withImages (outlined [Some ''Sun''] ''Minimal'')) =
     Json \<lparr>slides =
             [\<lparr>slide_id = ''slide-1'', slide_title = Str ''Sun'',
               bullets = [Str ''Sample professional opening paragraph for slide one.''],
               layout = Some ''image-left'', slide_theme = Some ''dark'',
               image = Some \<lparr>url = ''/uploads/slide_0_Sun_flat_0.jpg'', alt = Str ''Sun'',
                             source = ''Ideogram'', style = Some ''flat''\<rparr>\<rparr>],
            meta = \<lparr>meta_title = ''Solar Power'', meta_theme = Some ''dark'',
                     meta_amountOfText = ''Minimal'', meta_imageSource = ''Ideogram'',
                     meta_imageStyle = Some ''flat''\<rparr>\<rparr> \<and>
   ''slide-1'' = ''slide-'' @ show_nat (0 + 1) \<and>
   Some ''dark'' = theme (outlined [Some ''Sun''] ''Minimal'') \<and>
   ''Ideogram'' = imageSource (outlined [Some ''Sun''] ''Minimal'') \<and>
   Some ''flat'' = imageStyle (outlined [Some ''Sun''] ''Minimal'')"
proof -
  let ?R = "outlined [Some ''Sun''] ''Minimal''"
  let ?I = "\<lparr>url = ''/uploads/slide_0_Sun_flat_0.jpg'', alt = Str ''Sun'',
             source = ''Ideogram'', style = Some ''flat''\<rparr>"
  let ?S = "\<lparr>slide_id = ''slide-1'', slide_title = Str ''Sun'',
             bullets = [Str ''Sample professional opening paragraph for slide one.''],
             layout = Some ''image-left'', slide_theme = Some ''dark'', image = Some ?I\<rparr>"
  let ?B = "\<lparr>slides = [?S],
            meta = \<lparr>meta_title = ''Solar Power'', meta_theme = Some ''dark'',
                     meta_amountOfText = ''Minimal'', meta_imageSource = ''Ideogram'',
                     meta_imageStyle = Some ''flat''\<rparr>\<rparr>"
  have t: "outlineTitles withImages ?R = ([Str ''Sun''], [])"
    by (simp add: outlineTitles_def outlined_def titleOf_def)
  have "generateSlideContent_try withImages ''Sun'' (title ?R) (amountOfText ?R) 0 = Inl Rejected"
    by (simp add: generateSlideContent_try_def parseCompletion_def withImages_def offline_def)
  then have c: "fst (generateSlideContent withImages (Str ''Sun'') (title ?R) (amountOfText ?R) 0) =
      Inr [Str ''Sample professional opening paragraph for slide one.'']"
    by (simp add: content_Inl fallbackBullets_def)
  have m: "fst (makeSlide withImages ?R 0 (Str ''Sun'')) = Inr ?S"
    by (simp add: makeSlide_def Let_def c chooseLayout_def show_nat.simps digit_def)
       (simp add: outlined_def image_withImages)
  have eq: "fst (post_generate withImages ?R) = Json ?B"
    using post_generate_made [of withImages ?R "[?S]"]
    by (simp add: t m) (simp add: outlined_def)
  have i: "0 < length (slides ?B)" by simp
  from C10_slide_records [OF eq i]
  have "slide_id (slides ?B ! 0) = ''slide-'' @ show_nat (0 + 1) \<and>
        slide_theme (slides ?B ! 0) = theme ?R \<and>
        (image (slides ?B ! 0) = Some ?I \<longrightarrow>
            alt ?I = slide_title (slides ?B ! 0) \<and> source ?I = imageSource ?R \<and>
            style ?I = imageStyle ?R)"
    by blast
  then show ?thesis using eq by simp
qed

end
